theory Spec2Isabelle
  imports Complex_Main
begin

section \<open>ShortShorts: the media pipeline, embedded from the TypeScript sources\<close>

text \<open>
  JavaScript numbers are modelled as exact reals (\<open>real\<close>); values the code keeps integral
  (pixel sizes and the results of \<open>Math.round\<close>) are \<open>int\<close>. Strings are \<open>string\<close>.
  A thrown exception is the \<open>Inl\<close> side of a sum.
\<close>

subsection \<open>Numbers\<close>

text \<open>\<open>Math.round\<close>: the nearest integer, halves rounded towards plus infinity.\<close>

definition js_round :: "real \<Rightarrow> int" where
  "js_round v = \<lfloor>v + 1 / 2\<rfloor>"

text \<open>\<open>Number.prototype.toFixed(4)\<close>, read back as a number.\<close>

definition toFixed4 :: "real \<Rightarrow> real" where
  "toFixed4 v = real_of_int (js_round (v * 10000)) / 10000"

subsection \<open>Crop geometry (lib/ffmpeg/crop.ts and lib/mediapipe/cropper.ts)\<close>

record point =
  px :: real
  py :: real

text \<open>
  \<open>CropRegion\<close> \<open>{x, y, width, height}\<close>; the fields carry a prefix because \<open>x\<close> and
  \<open>y\<close> are wanted as variables.
\<close>

record cropRegion =
  crop_x :: int
  crop_y :: int
  crop_width :: int
  crop_height :: int

definition OUTPUT_WIDTH :: int where
  "OUTPUT_WIDTH = 720"

definition OUTPUT_HEIGHT :: int where
  "OUTPUT_HEIGHT = 1280"

definition TARGET_ASPECT :: real where
  "TARGET_ASPECT = real_of_int OUTPUT_WIDTH / real_of_int OUTPUT_HEIGHT"

text \<open>
  \<open>calculateCropRegion(videoWidth, videoHeight, faceCenter?)\<close> of crop.ts. The video
  dimensions are pixel counts (\<open>video.videoWidth\<close>, \<open>video.videoHeight\<close>).
\<close>

definition calculateCropRegion :: "int \<Rightarrow> int \<Rightarrow> point option \<Rightarrow> cropRegion" where
  "calculateCropRegion videoWidth videoHeight faceCenter =
    (let targetAspect = (9 / 16 :: real);
         videoAspect = real_of_int videoWidth / real_of_int videoHeight;
         cropHeight = (if videoAspect > targetAspect then videoHeight
                       else js_round (real_of_int videoWidth / targetAspect));
         cropWidth = (if videoAspect > targetAspect
                      then js_round (real_of_int videoHeight * targetAspect)
                      else videoWidth);
         x0 = js_round (real_of_int (videoWidth - cropWidth) / 2);
         y0 = js_round (real_of_int (videoHeight - cropHeight) / 2)
     in case faceCenter of
          None \<Rightarrow>
            \<lparr>crop_x = x0, crop_y = y0, crop_width = cropWidth, crop_height = cropHeight\<rparr>
        | Some c \<Rightarrow>
            (let x1 = js_round (px c - real_of_int cropWidth / 2);
                 y1 = js_round (py c - real_of_int cropHeight / 3)
             in \<lparr>crop_x = max 0 (min x1 (videoWidth - cropWidth)),
                 crop_y = max 0 (min y1 (videoHeight - cropHeight)),
                 crop_width = cropWidth, crop_height = cropHeight\<rparr>))"

text \<open>
  The first half of \<open>smartCrop\<close> (crop.ts): the non-null centres and their plain
  arithmetic mean, \<open>undefined\<close> when there is none.
\<close>

definition validCenters :: "point option list \<Rightarrow> point list" where
  "validCenters faceCenters = map the (filter (\<lambda>c. c \<noteq> None) faceCenters)"

definition averageCenter :: "point option list \<Rightarrow> point option" where
  "averageCenter faceCenters =
    (let vs = validCenters faceCenters
     in if length vs > 0
        then Some \<lparr>px = sum_list (map px vs) / real (length vs),
                   py = sum_list (map py vs) / real (length vs)\<rparr>
        else None)"

text \<open>
  \<open>calculateOptimalCrop(faceCenters, videoWidth, videoHeight)\<close> of cropper.ts.
  \<open>Math.pow(1.2, i / n)\<close> is the real power \<open>powr\<close>.
\<close>

definition recencyWeights :: "nat \<Rightarrow> real list" where
  "recencyWeights n = map (\<lambda>i. (12 / 10) powr (real i / real n)) [0..<n]"

definition weightedSum :: "real list \<Rightarrow> real list \<Rightarrow> real" where
  "weightedSum vs ws = sum_list (map (\<lambda>(v, w). v * w) (zip vs ws))"

definition targetCenter :: "point option list \<Rightarrow> int \<Rightarrow> int \<Rightarrow> point" where
  "targetCenter faceCenters videoWidth videoHeight =
    (let vs = validCenters faceCenters
     in if length vs > 0
        then (let weights = recencyWeights (length vs);
                  totalWeight = sum_list weights
              in \<lparr>px = weightedSum (map px vs) weights / totalWeight,
                  py = weightedSum (map py vs) weights / totalWeight\<rparr>)
        else \<lparr>px = real_of_int videoWidth / 2, py = real_of_int videoHeight / 3\<rparr>)"

definition calculateOptimalCrop :: "point option list \<Rightarrow> int \<Rightarrow> int \<Rightarrow> cropRegion" where
  "calculateOptimalCrop faceCenters videoWidth videoHeight =
    (let t = targetCenter faceCenters videoWidth videoHeight;
         videoAspect = real_of_int videoWidth / real_of_int videoHeight;
         cropHeight = (if videoAspect > TARGET_ASPECT then videoHeight
                       else js_round (real_of_int videoWidth / TARGET_ASPECT));
         cropWidth = (if videoAspect > TARGET_ASPECT
                      then js_round (real_of_int videoHeight * TARGET_ASPECT)
                      else videoWidth);
         x1 = js_round (px t - real_of_int cropWidth / 2);
         y1 = js_round (py t - real_of_int cropHeight / 3)
     in \<lparr>crop_x = max 0 (min x1 (videoWidth - cropWidth)),
         crop_y = max 0 (min y1 (videoHeight - cropHeight)),
         crop_width = cropWidth, crop_height = cropHeight\<rparr>)"

subsection \<open>Duration matching (lib/ffmpeg/timestretch.ts)\<close>

text \<open>
  The two constants \<open>adjustDuration\<close> computes before it touches a file:
  \<open>speedFactor = currentDuration / targetDuration\<close> and
  \<open>clampedSpeed = Math.max(0.5, Math.min(2.0, speedFactor))\<close>; the filter it runs is
  \<open>setpts=(1 / clampedSpeed).toFixed(4)*PTS\<close>.
\<close>

definition speedFactor :: "real \<Rightarrow> real \<Rightarrow> real" where
  "speedFactor currentDuration targetDuration = currentDuration / targetDuration"

definition clampedSpeed :: "real \<Rightarrow> real \<Rightarrow> real" where
  "clampedSpeed currentDuration targetDuration =
     max (1 / 2) (min 2 (speedFactor currentDuration targetDuration))"

definition ptsMultiplier :: "real \<Rightarrow> real \<Rightarrow> real" where
  "ptsMultiplier currentDuration targetDuration =
     toFixed4 (1 / clampedSpeed currentDuration targetDuration)"

subsection \<open>Captions (lib/utils/captions.ts)\<close>

text \<open>
  Whitespace as \<open>\s\<close> and \<open>trim\<close> see it on the ASCII range: space, tab, line feed,
  vertical tab, form feed, carriage return. A string's \<open>length\<close> counts its characters.
\<close>

definition isSpace :: "char \<Rightarrow> bool" where
  "isSpace c = (c \<in> set [CHR '' '', CHR 0x09, CHR 0x0A, CHR 0x0B, CHR 0x0C, CHR 0x0D])"

definition trim :: "string \<Rightarrow> string" where
  "trim s = rev (dropWhile isSpace (rev (dropWhile isSpace s)))"

text \<open>
  \<open>s.split(/\s+/)\<close>: \<open>splitWs cur s\<close> holds the piece read so far in \<open>cur\<close>. A run of
  whitespace ends a piece; whitespace at either end of the string leaves an empty piece
  there, and the empty string splits into one empty piece.
\<close>

function splitWs :: "string \<Rightarrow> string \<Rightarrow> string list" where
  "splitWs cur [] = [cur]"
| "splitWs cur (c # cs) =
     (if isSpace c then cur # splitWs [] (dropWhile isSpace cs)
      else splitWs (cur @ [c]) cs)"
  by pat_completeness auto
termination
  by (relation "measure (\<lambda>(cur, s). length s)")
     (auto simp: le_imp_less_Suc length_dropWhile_le)

text \<open>\<open>text.trim().split(/\s+/).filter(Boolean)\<close>\<close>

definition wordsOf :: "string \<Rightarrow> string list" where
  "wordsOf script_text = filter (\<lambda>w. w \<noteq> []) (splitWs [] (trim script_text))"

record captionWord =
  word_text :: string
  word_startTime :: real
  word_endTime :: real

definition endsWith :: "string \<Rightarrow> char \<Rightarrow> bool" where
  "endsWith w c = (w \<noteq> [] \<and> last w = c)"

text \<open>The body of \<open>words.map((word) => ...)\<close> in \<open>estimateWordTimings\<close>.\<close>

definition wordWeight :: "string \<Rightarrow> real" where
  "wordWeight word =
    (let weight = real (length word)
     in if endsWith word CHR ''.'' \<or> endsWith word CHR ''!'' \<or> endsWith word CHR ''?''
        then weight + 3
        else if endsWith word CHR '','' \<or> endsWith word CHR '';'' \<or> endsWith word CHR '':''
        then weight + 3 / 2
        else weight)"

text \<open>The \<open>for\<close> loop of \<open>estimateWordTimings\<close> over \<open>words[i]\<close> and \<open>weights[i]\<close>.\<close>

fun timingLoop :: "string list \<Rightarrow> real list \<Rightarrow> real \<Rightarrow> real \<Rightarrow> captionWord list" where
  "timingLoop (w # ws) (wt # wts) timePerWeight currentTime =
     (let wordDuration = wt * timePerWeight
      in \<lparr>word_text = w, word_startTime = currentTime,
          word_endTime = currentTime + wordDuration\<rparr>
         # timingLoop ws wts timePerWeight (currentTime + wordDuration))"
| "timingLoop ws wts timePerWeight currentTime = []"

text \<open>\<open>timings[timings.length - 1].endTime = e\<close>, guarded by \<open>timings.length > 0\<close>.\<close>

definition setLastEndTime :: "captionWord list \<Rightarrow> real \<Rightarrow> captionWord list" where
  "setLastEndTime timings e =
    (if length timings > 0
     then timings[length timings - 1 :=
            (timings ! (length timings - 1))\<lparr>word_endTime := e\<rparr>]
     else timings)"

definition estimateWordTimings :: "string \<Rightarrow> real \<Rightarrow> real \<Rightarrow> captionWord list" where
  "estimateWordTimings script_text startTime duration =
    (let words = wordsOf script_text
     in if length words = 0 then []
        else (let weights = map wordWeight words;
                  totalWeight = sum_list weights;
                  timePerWeight = duration / totalWeight;
                  timings = timingLoop words weights timePerWeight startTime
              in setLastEndTime timings (startTime + duration)))"

text \<open>A script segment (\<open>ScriptSegment\<close>, and \<open>ProcessingSegment\<close> on the server).\<close>

record segment =
  seg_id :: string
  script :: string
  sourceTimestamp :: real
  outputTime :: real

record segmentCaptions =
  segmentId :: string
  cap_words :: "captionWord list"

text \<open>
  \<open>generateCaptions(segments, durations)\<close>: \<open>durations[i] || 3\<close> is 3 when the index is
  out of range or the duration is 0.
\<close>

definition durationOrDefault :: "real list \<Rightarrow> nat \<Rightarrow> real" where
  "durationOrDefault durations i =
    (if i < length durations \<and> durations ! i \<noteq> 0 then durations ! i else 3)"

fun captionsLoop :: "segment list \<Rightarrow> real list \<Rightarrow> nat \<Rightarrow> real \<Rightarrow> segmentCaptions list" where
  "captionsLoop [] durations i cumulativeTime = []"
| "captionsLoop (seg # rest) durations i cumulativeTime =
     (let duration = durationOrDefault durations i;
          words = estimateWordTimings (script seg) cumulativeTime duration
      in \<lparr>segmentId = seg_id seg, cap_words = words\<rparr>
         # captionsLoop rest durations (i + 1) (cumulativeTime + duration))"

definition generateCaptions :: "segment list \<Rightarrow> real list \<Rightarrow> segmentCaptions list" where
  "generateCaptions segments durations = captionsLoop segments durations 0 0"

subsection \<open>Predicates the properties are stated with\<close>

text \<open>
  The crop bounds invariant for a frame of the given size: the rectangle lies inside the
  frame, is not empty, and its sides are in the ratio 9:16 up to one pixel either way.
\<close>

definition cropInvariant :: "int \<Rightarrow> int \<Rightarrow> cropRegion \<Rightarrow> bool" where
  "cropInvariant frameWidth frameHeight r =
    (0 \<le> crop_x r \<and> 0 \<le> crop_y r \<and>
     crop_x r + crop_width r \<le> frameWidth \<and>
     crop_y r + crop_height r \<le> frameHeight \<and>
     0 < crop_width r \<and> 0 < crop_height r \<and>
     \<bar>real_of_int (crop_width r) - real_of_int (crop_height r) * (9 / 16)\<bar> \<le> 1 \<and>
     \<bar>real_of_int (crop_height r) - real_of_int (crop_width r) * (16 / 9)\<bar> \<le> 1)"

text \<open>
  \<open>tilesFrom a ws b\<close>: the words \<open>ws\<close>, in order, tile the interval from \<open>a\<close> to \<open>b\<close>:
  the first starts at \<open>a\<close>, each next one starts where the one before ends, none is
  empty or reversed, and the last ends at \<open>b\<close>.
\<close>

fun tilesFrom :: "real \<Rightarrow> captionWord list \<Rightarrow> real \<Rightarrow> bool" where
  "tilesFrom a [] b = False"
| "tilesFrom a [w] b = (word_startTime w = a \<and> a < word_endTime w \<and> word_endTime w = b)"
| "tilesFrom a (w # w' # ws) b =
     (word_startTime w = a \<and> a < word_endTime w \<and> tilesFrom (word_endTime w) (w' # ws) b)"

text \<open>The pause bonus in the specification's words.\<close>

definition pauseBonus :: "string \<Rightarrow> real" where
  "pauseBonus w =
    (if w = [] then 0
     else if last w \<in> {CHR ''.'', CHR ''!'', CHR ''?''} then 3
     else if last w \<in> {CHR '','', CHR '';'', CHR '':''} then 3 / 2
     else 0)"

text \<open>The crop size that \<open>calculateCropRegion\<close> and \<open>calculateOptimalCrop\<close> both compute.\<close>

definition cropSize :: "int \<Rightarrow> int \<Rightarrow> int \<times> int" where
  "cropSize videoWidth videoHeight =
    (if real_of_int videoWidth / real_of_int videoHeight > 9 / 16
     then (js_round (real_of_int videoHeight * (9 / 16)), videoHeight)
     else (videoWidth, js_round (real_of_int videoWidth / (9 / 16))))"

text \<open>Two segments used as a concrete input.\<close>

definition exampleSegments :: "segment list" where
  "exampleSegments =
    [\<lparr>seg_id = ''a'', script = ''Hi there.'', sourceTimestamp = 0, outputTime = 0\<rparr>,
     \<lparr>seg_id = ''b'', script = ''One, two'', sourceTimestamp = 30, outputTime = 7\<rparr>]"

subsection \<open>JavaScript values, exceptions and the FFmpeg file system\<close>

text \<open>
  A string the code builds from literal text and numbers, such as the template
  \<open>`clip_${i}.mp4`\<close> or the argument \<open>startTime.toString()\<close>: \<open>S\<close> is literal text, \<open>N\<close> a
  number written out, \<open>T\<close> the concatenation of its parts.
\<close>

datatype jstr = S string | N real | T "jstr list"

text \<open>
  What a rejected promise carries: an \<open>Error\<close> object with its message, or any other
  thrown value (\<open>error instanceof Error\<close> is false for it).
\<close>

datatype exn = Err jstr | Thrown

definition errorMessage :: "exn \<Rightarrow> jstr" where
  "errorMessage e = (case e of Err m \<Rightarrow> m | Thrown \<Rightarrow> S ''Unknown error occurred'')"

datatype blob = Bytes "nat list" | Text jstr

text \<open>The virtual file system of the FFmpeg instance: file name to content.\<close>

type_synonym fs = "jstr \<rightharpoonup> blob"

text \<open>
  The FFmpeg engine is external. \<open>ff_exec\<close> is what \<open>ffmpeg.exec(args)\<close> does to the file
  system, and the exception it rejects with, if any (a command that ffmpeg itself fails
  resolves with a non-zero exit code, which no caller in this repository reads);
  \<open>ff_missing name\<close> is what \<open>readFile\<close> and \<open>deleteFile\<close> reject with for a file that
  does not exist. \<open>writeFile\<close> stores the file; \<open>readFile\<close> and \<open>deleteFile\<close> of an
  existing file succeed.
\<close>

record ffmpeg =
  ff_exec :: "jstr list \<Rightarrow> fs \<Rightarrow> exn option \<times> fs"
  ff_missing :: "jstr \<Rightarrow> exn"

text \<open>
  An asynchronous computation over a state \<open>'s\<close>: it ends with a value (\<open>Inr\<close>) or with
  a thrown exception (\<open>Inl\<close>), and the state it leaves.
\<close>

type_synonym ('s, 'a) run = "'s \<Rightarrow> (exn + 'a) \<times> 's"

definition retM :: "'a \<Rightarrow> ('s, 'a) run" where
  "retM v s = (Inr v, s)"

definition throwM :: "exn \<Rightarrow> ('s, 'a) run" where
  "throwM e s = (Inl e, s)"

definition bindM :: "('s, 'a) run \<Rightarrow> ('a \<Rightarrow> ('s, 'b) run) \<Rightarrow> ('s, 'b) run" where
  "bindM m f s = (case m s of (Inl e, s') \<Rightarrow> (Inl e, s') | (Inr v, s') \<Rightarrow> f v s')"

text \<open>\<open>try { body } finally { fin }\<close>: an exception of \<open>fin\<close> replaces the outcome.\<close>

definition tryFinally :: "('s, 'a) run \<Rightarrow> ('s, unit) run \<Rightarrow> ('s, 'a) run" where
  "tryFinally body fin s =
    (case body s of (r, s1) \<Rightarrow>
       (case fin s1 of (Inl e, s2) \<Rightarrow> (Inl e, s2) | (Inr u, s2) \<Rightarrow> (r, s2)))"

definition liftResult :: "exn + 'a \<Rightarrow> ('s, 'a) run" where
  "liftResult r = (case r of Inl e \<Rightarrow> throwM e | Inr v \<Rightarrow> retM v)"

text \<open>The methods of the FFmpeg instance (\<open>ffmpeg.writeFile\<close> and so on).\<close>

definition ffmpeg_writeFile :: "jstr \<Rightarrow> blob \<Rightarrow> (fs, unit) run" where
  "ffmpeg_writeFile name content files = (Inr (), files(name \<mapsto> content))"

definition ffmpeg_readFile :: "ffmpeg \<Rightarrow> jstr \<Rightarrow> (fs, blob) run" where
  "ffmpeg_readFile ff name files =
    (case files name of None \<Rightarrow> (Inl (ff_missing ff name), files)
                      | Some content \<Rightarrow> (Inr content, files))"

definition ffmpeg_deleteFile :: "ffmpeg \<Rightarrow> jstr \<Rightarrow> (fs, unit) run" where
  "ffmpeg_deleteFile ff name files =
    (case files name of None \<Rightarrow> (Inl (ff_missing ff name), files)
                      | Some content \<Rightarrow> (Inr (), files(name := None)))"

definition ffmpeg_exec :: "ffmpeg \<Rightarrow> jstr list \<Rightarrow> (fs, unit) run" where
  "ffmpeg_exec ff args files =
    (case ff_exec ff args files of (Some e, files') \<Rightarrow> (Inl e, files')
                                 | (None, files') \<Rightarrow> (Inr (), files'))"

subsection \<open>The browser-side FFmpeg client (lib/ffmpeg/client.ts)\<close>

text \<open>
  The wrappers call \<open>getFFmpeg()\<close> first; the instance is the one the orchestrator loaded
  before any media step runs. \<open>deleteFile\<close> swallows the exception of a missing file.
\<close>

definition writeFile :: "jstr \<Rightarrow> blob \<Rightarrow> (fs, unit) run" where
  "writeFile name content = ffmpeg_writeFile name content"

definition readFile :: "ffmpeg \<Rightarrow> jstr \<Rightarrow> (fs, blob) run" where
  "readFile ff name = ffmpeg_readFile ff name"

definition deleteFile :: "ffmpeg \<Rightarrow> jstr \<Rightarrow> (fs, unit) run" where
  "deleteFile ff name files =
    (case ffmpeg_deleteFile ff name files of (Inl e, files') \<Rightarrow> (Inr (), files')
                                           | (Inr u, files') \<Rightarrow> (Inr (), files'))"

subsection \<open>The browser-side media steps (lib/ffmpeg)\<close>

text \<open>
  \<open>extractClip(videoFile, startTime, duration)\<close> of extract.ts. \<open>toBlob\<close> copies the bytes
  it is given, so the value returned is the content read.
\<close>

definition extractClip_args :: "real \<Rightarrow> real \<Rightarrow> jstr list" where
  "extractClip_args startTime duration =
    [S ''-ss'', N startTime, S ''-i'', S ''input.mp4'', S ''-t'', N duration, S ''-an'',
     S ''-c:v'', S ''libx264'', S ''-preset'', S ''fast'', S ''-crf'', S ''23'', S ''-y'',
     S ''clip.mp4'']"

definition extractClip :: "ffmpeg \<Rightarrow> blob \<Rightarrow> real \<Rightarrow> real \<Rightarrow> (fs, blob) run" where
  "extractClip ff videoFile startTime duration =
    tryFinally
      (bindM (writeFile (S ''input.mp4'') videoFile) (\<lambda>u.
       bindM (ffmpeg_exec ff (extractClip_args startTime duration)) (\<lambda>u.
       readFile ff (S ''clip.mp4''))))
      (bindM (deleteFile ff (S ''input.mp4'')) (\<lambda>u. deleteFile ff (S ''clip.mp4'')))"

text \<open>
  \<open>cropVideo\<close>: the filter is the template
  \<open>`crop=${width}:${height}:${x}:${y},scale=${OUTPUT_WIDTH}:${OUTPUT_HEIGHT}`\<close>.
\<close>

definition cropFilter :: "cropRegion \<Rightarrow> jstr" where
  "cropFilter cropRegion =
    T [S ''crop='', N (real_of_int (crop_width cropRegion)), S '':'',
       N (real_of_int (crop_height cropRegion)), S '':'',
       N (real_of_int (crop_x cropRegion)), S '':'',
       N (real_of_int (crop_y cropRegion)), S '',scale='',
       N (real_of_int OUTPUT_WIDTH), S '':'', N (real_of_int OUTPUT_HEIGHT)]"

definition cropVideo_args :: "cropRegion \<Rightarrow> jstr list" where
  "cropVideo_args cropRegion =
    [S ''-i'', S ''input.mp4'', S ''-vf'', cropFilter cropRegion, S ''-c:v'', S ''libx264'',
     S ''-preset'', S ''fast'', S ''-crf'', S ''23'', S ''-an'', S ''-y'', S ''cropped.mp4'']"

definition cropVideo :: "ffmpeg \<Rightarrow> blob \<Rightarrow> cropRegion \<Rightarrow> (fs, blob) run" where
  "cropVideo ff videoBlob cropRegion =
    tryFinally
      (bindM (writeFile (S ''input.mp4'') videoBlob) (\<lambda>u.
       bindM (ffmpeg_exec ff (cropVideo_args cropRegion)) (\<lambda>u.
       readFile ff (S ''cropped.mp4''))))
      (bindM (deleteFile ff (S ''input.mp4'')) (\<lambda>u. deleteFile ff (S ''cropped.mp4'')))"

text \<open>\<open>smartCrop\<close>: the region comes from \<open>calculateCropRegion\<close> on the averaged centre.\<close>

definition smartCrop :: "ffmpeg \<Rightarrow> blob \<Rightarrow> point option list \<Rightarrow> int \<Rightarrow> int \<Rightarrow> (fs, blob) run" where
  "smartCrop ff videoBlob faceCenters videoWidth videoHeight =
    (let cropRegion = calculateCropRegion videoWidth videoHeight (averageCenter faceCenters)
     in cropVideo ff videoBlob cropRegion)"

text \<open>\<open>adjustDuration(videoBlob, targetDuration, currentDuration)\<close> of timestretch.ts.\<close>

definition adjustDuration_args :: "real \<Rightarrow> real \<Rightarrow> jstr list" where
  "adjustDuration_args targetDuration currentDuration =
    [S ''-i'', S ''input.mp4'', S ''-filter:v'',
     T [S ''setpts='', N (ptsMultiplier currentDuration targetDuration), S ''*PTS''],
     S ''-c:v'', S ''libx264'', S ''-preset'', S ''fast'', S ''-crf'', S ''23'', S ''-an'',
     S ''-y'', S ''adjusted.mp4'']"

definition adjustDuration :: "ffmpeg \<Rightarrow> blob \<Rightarrow> real \<Rightarrow> real \<Rightarrow> (fs, blob) run" where
  "adjustDuration ff videoBlob targetDuration currentDuration =
    tryFinally
      (bindM (writeFile (S ''input.mp4'') videoBlob) (\<lambda>u.
       bindM (ffmpeg_exec ff (adjustDuration_args targetDuration currentDuration)) (\<lambda>u.
       readFile ff (S ''adjusted.mp4''))))
      (bindM (deleteFile ff (S ''input.mp4'')) (\<lambda>u. deleteFile ff (S ''adjusted.mp4'')))"

text \<open>
  \<open>stitchSegments(segments, backgroundMusic, musicVolume)\<close> of stitch.ts. The arrays
  \<open>segmentFiles\<close> and \<open>audioFiles\<close> are filled by a loop of \<open>writeFile\<close> calls before
  anything else runs; they hold one name per segment.
\<close>

record stitchSegment =
  st_video :: blob
  st_audio :: blob
  st_duration :: real

definition segmentFileName :: "nat \<Rightarrow> jstr" where
  "segmentFileName i = T [S ''segment_'', N (real i), S ''.mp4'']"

definition audioFileName :: "nat \<Rightarrow> jstr" where
  "audioFileName i = T [S ''audio_'', N (real i), S ''.wav'']"

fun writeSegmentFiles :: "nat \<Rightarrow> stitchSegment list \<Rightarrow> (fs, unit) run" where
  "writeSegmentFiles i [] = retM ()"
| "writeSegmentFiles i (seg # rest) =
     bindM (writeFile (segmentFileName i) (st_video seg)) (\<lambda>u.
     bindM (writeFile (audioFileName i) (st_audio seg)) (\<lambda>u.
     writeSegmentFiles (i + 1) rest))"

fun deleteFiles :: "ffmpeg \<Rightarrow> jstr list \<Rightarrow> (fs, unit) run" where
  "deleteFiles ff [] = retM ()"
| "deleteFiles ff (f # rest) = bindM (deleteFile ff f) (\<lambda>u. deleteFiles ff rest)"

text \<open>\<open>parts.join(sep)\<close>\<close>

fun joinWith :: "jstr \<Rightarrow> jstr list \<Rightarrow> jstr list" where
  "joinWith sep [] = []"
| "joinWith sep [p] = [p]"
| "joinWith sep (p # q # rest) = p # sep # joinWith sep (q # rest)"

definition audioInputs :: "jstr list \<Rightarrow> jstr list" where
  "audioInputs audioFiles = concat (map (\<lambda>f. [S ''-i'', f]) audioFiles)"

definition audioConcat :: "nat \<Rightarrow> jstr" where
  "audioConcat n =
    T (map (\<lambda>i. T [S ''['', N (real i), S '':a]'']) [0..<n]
       @ [S ''concat=n='', N (real n), S '':v=0:a=1[voiceover]''])"

definition stitchMix_args :: "stitchSegment list \<Rightarrow> real \<Rightarrow> jstr list" where
  "stitchMix_args segments musicVolume =
    (let n = length segments;
         totalDuration = sum_list (map st_duration segments)
     in audioInputs (map audioFileName [0..<n])
        @ [S ''-i'', S ''music.mp3'', S ''-filter_complex'',
           T [audioConcat n, S '';['', N (real n), S '':a]volume='', N musicVolume,
              S ''[music];[voiceover][music]amix=inputs=2:duration=first[aout]''],
           S ''-map'', S ''[aout]'', S ''-t'', N totalDuration, S ''-y'',
           S ''audio_mixed.wav''])"

definition stitchVoice_args :: "stitchSegment list \<Rightarrow> jstr list" where
  "stitchVoice_args segments =
    (let n = length segments
     in audioInputs (map audioFileName [0..<n])
        @ [S ''-filter_complex'', audioConcat n, S ''-map'', S ''[voiceover]'', S ''-y'',
           S ''audio_mixed.wav''])"

definition stitchSegments ::
  "ffmpeg \<Rightarrow> stitchSegment list \<Rightarrow> blob option \<Rightarrow> real \<Rightarrow> (fs, blob) run" where
  "stitchSegments ff segments backgroundMusic musicVolume =
    (let n = length segments;
         segmentFiles = map segmentFileName [0..<n];
         audioFiles = map audioFileName [0..<n];
         concatContent =
           T (joinWith (S [CHR 0x0A]) (map (\<lambda>f. T [S ''file '', S [CHR 0x27], f, S [CHR 0x27]])
                segmentFiles))
     in tryFinally
          (bindM (writeSegmentFiles 0 segments) (\<lambda>u.
           bindM (writeFile (S ''concat.txt'') (Text concatContent)) (\<lambda>u.
           bindM (ffmpeg_exec ff
                    [S ''-f'', S ''concat'', S ''-safe'', S ''0'', S ''-i'', S ''concat.txt'',
                     S ''-c:v'', S ''libx264'', S ''-preset'', S ''fast'', S ''-crf'', S ''23'',
                     S ''-y'', S ''video_only.mp4'']) (\<lambda>u.
           bindM (case backgroundMusic of
                    Some music \<Rightarrow>
                      bindM (writeFile (S ''music.mp3'') music) (\<lambda>u.
                      ffmpeg_exec ff (stitchMix_args segments musicVolume))
                  | None \<Rightarrow> ffmpeg_exec ff (stitchVoice_args segments)) (\<lambda>u.
           bindM (ffmpeg_exec ff
                    [S ''-i'', S ''video_only.mp4'', S ''-i'', S ''audio_mixed.wav'',
                     S ''-c:v'', S ''copy'', S ''-c:a'', S ''aac'', S ''-b:a'', S ''192k'',
                     S ''-shortest'', S ''-y'', S ''final.mp4'']) (\<lambda>u.
           readFile ff (S ''final.mp4'')))))))
          (bindM (deleteFiles ff segmentFiles) (\<lambda>u.
           bindM (deleteFiles ff audioFiles) (\<lambda>u.
           bindM (deleteFile ff (S ''concat.txt'')) (\<lambda>u.
           bindM (deleteFile ff (S ''video_only.mp4'')) (\<lambda>u.
           bindM (deleteFile ff (S ''audio_mixed.wav'')) (\<lambda>u.
           bindM (deleteFile ff (S ''music.mp3'')) (\<lambda>u.
           deleteFile ff (S ''final.mp4'')))))))))"

subsection \<open>The server-side media steps (lib/server/processor.ts)\<close>

text \<open>
  The processor calls the methods of the FFmpeg instance directly, with no
  \<open>try\<close>/\<open>finally\<close>: the two \<open>deleteFile\<close> calls that end each step run only when
  everything before them has succeeded.
\<close>

definition processor_extractClip_args :: "real \<Rightarrow> real \<Rightarrow> jstr \<Rightarrow> jstr list" where
  "processor_extractClip_args startTime duration outputName =
    [S ''-ss'', N startTime, S ''-i'', S ''input.mp4'', S ''-t'', N duration,
     S ''-c:v'', S ''libx264'', S ''-preset'', S ''fast'', S ''-c:a'', S ''aac'', S ''-y'',
     outputName]"

definition processor_extractClip ::
  "ffmpeg \<Rightarrow> blob \<Rightarrow> real \<Rightarrow> real \<Rightarrow> jstr \<Rightarrow> (fs, blob) run" where
  "processor_extractClip ff videoData startTime duration outputName =
     bindM (ffmpeg_writeFile (S ''input.mp4'') videoData) (\<lambda>u.
     bindM (ffmpeg_exec ff (processor_extractClip_args startTime duration outputName)) (\<lambda>u.
     bindM (ffmpeg_readFile ff outputName) (\<lambda>content.
     bindM (ffmpeg_deleteFile ff (S ''input.mp4'')) (\<lambda>u.
     bindM (ffmpeg_deleteFile ff outputName) (\<lambda>u.
     retM content)))))"

definition processor_applyCrop_args :: "jstr \<Rightarrow> jstr list" where
  "processor_applyCrop_args outputName =
    [S ''-i'', S ''clip_input.mp4'', S ''-vf'',
     S ''scale=1080:-2,crop=1080:1920:(iw-1080)/2:(ih-1920)/2'',
     S ''-c:v'', S ''libx264'', S ''-preset'', S ''fast'', S ''-c:a'', S ''aac'', S ''-y'',
     outputName]"

definition processor_applyCrop :: "ffmpeg \<Rightarrow> blob \<Rightarrow> jstr \<Rightarrow> (fs, blob) run" where
  "processor_applyCrop ff clipData outputName =
     bindM (ffmpeg_writeFile (S ''clip_input.mp4'') clipData) (\<lambda>u.
     bindM (ffmpeg_exec ff (processor_applyCrop_args outputName)) (\<lambda>u.
     bindM (ffmpeg_readFile ff outputName) (\<lambda>content.
     bindM (ffmpeg_deleteFile ff (S ''clip_input.mp4'')) (\<lambda>u.
     bindM (ffmpeg_deleteFile ff outputName) (\<lambda>u.
     retM content)))))"

text \<open>
  The processor's \<open>adjustDuration(ffmpeg, clipData, targetDuration, outputName)\<close> has no
  current duration to divide by: its filter is the literal
  \<open>[0:v]setpts=PTS*1.0[v];[0:a]atempo=1.0[a]\<close>, and \<open>-t targetDuration\<close> cuts the
  output. \<open>processor_speed\<close> is the factor written in that literal.
\<close>

definition processor_speed :: real where
  "processor_speed = 1"

definition processor_adjustDuration_args :: "real \<Rightarrow> jstr \<Rightarrow> jstr list" where
  "processor_adjustDuration_args targetDuration outputName =
    [S ''-i'', S ''adjust_input.mp4'', S ''-filter_complex'',
     T [S ''[0:v]setpts=PTS*'', N processor_speed, S ''[v];[0:a]atempo='', N processor_speed,
        S ''[a]''],
     S ''-map'', S ''[v]'', S ''-map'', S ''[a]'', S ''-t'', N targetDuration,
     S ''-c:v'', S ''libx264'', S ''-preset'', S ''fast'', S ''-c:a'', S ''aac'', S ''-y'',
     outputName]"

definition processor_adjustDuration ::
  "ffmpeg \<Rightarrow> blob \<Rightarrow> real \<Rightarrow> jstr \<Rightarrow> (fs, blob) run" where
  "processor_adjustDuration ff clipData targetDuration outputName =
     bindM (ffmpeg_writeFile (S ''adjust_input.mp4'') clipData) (\<lambda>u.
     bindM (ffmpeg_exec ff (processor_adjustDuration_args targetDuration outputName)) (\<lambda>u.
     bindM (ffmpeg_readFile ff outputName) (\<lambda>content.
     bindM (ffmpeg_deleteFile ff (S ''adjust_input.mp4'')) (\<lambda>u.
     bindM (ffmpeg_deleteFile ff outputName) (\<lambda>u.
     retM content)))))"

text \<open>
  \<open>generateTTS(text, voiceId)\<close>: a silent WAV whose duration is estimated from the
  number of pieces of \<open>text.split(/\s+/)\<close>.
\<close>

definition le16 :: "nat \<Rightarrow> nat list" where
  "le16 v = [v mod 256, (v div 256) mod 256]"

definition le32 :: "nat \<Rightarrow> nat list" where
  "le32 v = [v mod 256, (v div 256) mod 256, (v div 65536) mod 256, (v div 16777216) mod 256]"

definition ascii :: "string \<Rightarrow> nat list" where
  "ascii s = map of_char s"

definition generateTTS_duration :: "string \<Rightarrow> real" where
  "generateTTS_duration script_text =
    (let words = length (splitWs [] script_text)
     in max 1 (real words / (5 / 2)))"

definition silentWav :: "real \<Rightarrow> blob" where
  "silentWav duration =
    (let sampleRate = (22050 :: nat);
         numSamples = nat \<lfloor>real sampleRate * duration\<rfloor>;
         bufferSize = 44 + numSamples * 2;
         header = ascii ''RIFF'' @ le32 (bufferSize - 8) @ ascii ''WAVE'' @ ascii ''fmt ''
                  @ le32 16 @ le16 1 @ le16 1 @ le32 sampleRate @ le32 (sampleRate * 2)
                  @ le16 2 @ le16 16 @ ascii ''data'' @ le32 (numSamples * 2)
     in Bytes (header @ replicate (numSamples * 2) 0))"

definition generateTTS :: "string \<Rightarrow> string \<Rightarrow> blob \<times> real" where
  "generateTTS script_text voiceId =
    (let duration = generateTTS_duration script_text
     in (silentWav duration, duration))"

text \<open>The processor's \<open>stitchSegments(ffmpeg, segments, musicData, musicVolume)\<close>.\<close>

fun combineLoop :: "ffmpeg \<Rightarrow> nat \<Rightarrow> stitchSegment list \<Rightarrow> (fs, jstr list) run" where
  "combineLoop ff i [] = retM []"
| "combineLoop ff i (seg # rest) =
     (let videoName = T [S ''seg_'', N (real i), S ''.mp4''];
          audioName = T [S ''seg_'', N (real i), S ''.wav''];
          combinedName = T [S ''combined_'', N (real i), S ''.mp4'']
      in bindM (ffmpeg_writeFile videoName (st_video seg)) (\<lambda>u.
         bindM (ffmpeg_writeFile audioName (st_audio seg)) (\<lambda>u.
         bindM (ffmpeg_exec ff
                  [S ''-i'', videoName, S ''-i'', audioName, S ''-c:v'', S ''copy'',
                   S ''-c:a'', S ''aac'', S ''-map'', S ''0:v:0'', S ''-map'', S ''1:a:0'',
                   S ''-shortest'', S ''-y'', combinedName]) (\<lambda>u.
         bindM (ffmpeg_deleteFile ff videoName) (\<lambda>u.
         bindM (ffmpeg_deleteFile ff audioName) (\<lambda>u.
         bindM (combineLoop ff (i + 1) rest) (\<lambda>concatList.
         retM (T [S ''file '', S [CHR 0x27], combinedName, S [CHR 0x27]] # concatList))))))))"

fun deleteCombined :: "ffmpeg \<Rightarrow> nat list \<Rightarrow> (fs, unit) run" where
  "deleteCombined ff [] = retM ()"
| "deleteCombined ff (i # rest) =
     bindM (ffmpeg_deleteFile ff (T [S ''combined_'', N (real i), S ''.mp4''])) (\<lambda>u.
     deleteCombined ff rest)"

definition processor_mix_args :: "real \<Rightarrow> jstr list" where
  "processor_mix_args musicVolume =
    [S ''-i'', S ''concatenated.mp4'', S ''-i'', S ''music.wav'', S ''-filter_complex'',
     T [S ''[1:a]volume='', N musicVolume,
        S ''[music];[0:a][music]amix=inputs=2:duration=first[a]''],
     S ''-map'', S ''0:v'', S ''-map'', S ''[a]'', S ''-c:v'', S ''copy'', S ''-c:a'', S ''aac'',
     S ''-y'', S ''final.mp4'']"

definition processor_stitchSegments ::
  "ffmpeg \<Rightarrow> stitchSegment list \<Rightarrow> blob option \<Rightarrow> real \<Rightarrow> (fs, blob) run" where
  "processor_stitchSegments ff segments musicData musicVolume =
     bindM (combineLoop ff 0 segments) (\<lambda>concatList.
     bindM (ffmpeg_writeFile (S ''concat.txt'') (Text (T (joinWith (S [CHR 0x0A]) concatList))))
       (\<lambda>u.
     bindM (ffmpeg_exec ff
              [S ''-f'', S ''concat'', S ''-safe'', S ''0'', S ''-i'', S ''concat.txt'',
               S ''-c'', S ''copy'', S ''-y'', S ''concatenated.mp4'']) (\<lambda>u.
     bindM (deleteCombined ff [0..<length segments]) (\<lambda>u.
     bindM (ffmpeg_deleteFile ff (S ''concat.txt'')) (\<lambda>u.
     bindM (case musicData of
              Some music \<Rightarrow>
                (if musicVolume > 0
                 then bindM (ffmpeg_writeFile (S ''music.wav'') music) (\<lambda>u.
                      bindM (ffmpeg_exec ff (processor_mix_args musicVolume)) (\<lambda>u.
                      bindM (ffmpeg_deleteFile ff (S ''music.wav'')) (\<lambda>u.
                      bindM (ffmpeg_deleteFile ff (S ''concatenated.mp4'')) (\<lambda>u.
                      retM (S ''final.mp4'')))))
                 else retM (S ''concatenated.mp4''))
            | None \<Rightarrow> retM (S ''concatenated.mp4'')) (\<lambda>finalOutput.
     bindM (ffmpeg_readFile ff finalOutput) (\<lambda>output.
     bindM (ffmpeg_deleteFile ff finalOutput) (\<lambda>u.
     retM output))))))))"

text \<open>
  The processor's \<open>generateCaptions(segments, durations)\<close>: every word of a segment gets
  the same share \<open>duration / words.length\<close>. It is called with one duration per segment.
\<close>

definition processor_captionWords :: "string list \<Rightarrow> real \<Rightarrow> real \<Rightarrow> captionWord list" where
  "processor_captionWords words duration currentTime =
    (let wordDuration = duration / real (length words)
     in map (\<lambda>(word, wordIndex).
              \<lparr>word_text = word,
               word_startTime = currentTime + real wordIndex * wordDuration,
               word_endTime = currentTime + real (wordIndex + 1) * wordDuration\<rparr>)
          (zip words [0..<length words]))"

fun processor_captionsLoop :: "(segment \<times> real) list \<Rightarrow> real \<Rightarrow> segmentCaptions list" where
  "processor_captionsLoop [] currentTime = []"
| "processor_captionsLoop ((seg, duration) # rest) currentTime =
     \<lparr>segmentId = seg_id seg,
      cap_words = processor_captionWords (wordsOf (script seg)) duration currentTime\<rparr>
     # processor_captionsLoop rest (currentTime + duration)"

definition processor_generateCaptions :: "segment list \<Rightarrow> real list \<Rightarrow> segmentCaptions list" where
  "processor_generateCaptions segments durations =
     processor_captionsLoop (zip segments durations) 0"

subsection \<open>The job store (lib/server/job-store.ts, lib/server/types.ts)\<close>

datatype stage =
  Queued | Loading | Tts | Extracting | Detecting | Cropping | Stitching | Complete | Error

datatype jobStatus = Pending | Processing | StatusComplete | StatusError

text \<open>
  \<open>ProcessingJob\<close>, without its three timestamps. \<open>currentSegment\<close> is optional here:
  \<open>updateJobProgress\<close> called without its last argument writes \<open>undefined\<close> over it.
\<close>

record job =
  job_id :: string
  job_status :: jobStatus
  job_stage :: stage
  job_progress :: real
  job_currentSegment :: "nat option"
  job_totalSegments :: nat
  job_message :: jstr
  job_error :: "jstr option"
  job_videoUrl :: string
  job_segments :: "segment list"
  job_voiceId :: string
  job_musicUrl :: "string option"
  job_musicVolume :: real
  job_includeCaptions :: bool
  job_outputUrl :: "string option"
  job_captions :: "segmentCaptions list option"

text \<open>
  The state the processor runs in: the files of the FFmpeg instance, the job store, and
  \<open>history\<close>, which records every job value \<open>updateJob\<close> stores, in order (it is what a
  client polling the store can read, one after the other).
\<close>

record world =
  files :: fs
  memoryStore :: "string \<rightharpoonup> job"
  history :: "job list"

definition onFiles :: "(fs, 'a) run \<Rightarrow> (world, 'a) run" where
  "onFiles m w = (case m (files w) of (r, files') \<Rightarrow> (r, w\<lparr>files := files'\<rparr>))"

text \<open>\<open>updateJob(jobId, updates)\<close>: \<open>{...job, ...updates}\<close> is \<open>updates job\<close>.\<close>

definition updateJob :: "string \<Rightarrow> (job \<Rightarrow> job) \<Rightarrow> (world, unit) run" where
  "updateJob jobId updates w =
    (case memoryStore w jobId of
       None \<Rightarrow> (Inl (Err (T [S ''Job not found: '', S jobId])), w)
     | Some j \<Rightarrow>
         (let updatedJob = updates j
          in (Inr (), w\<lparr>memoryStore := (memoryStore w)(jobId \<mapsto> updatedJob),
                        history := history w @ [updatedJob]\<rparr>)))"

definition updateJobProgress ::
  "string \<Rightarrow> stage \<Rightarrow> real \<Rightarrow> jstr \<Rightarrow> nat option \<Rightarrow> (world, unit) run" where
  "updateJobProgress jobId stg progress message currentSegment =
    updateJob jobId (\<lambda>j. j\<lparr>job_stage := stg, job_progress := progress,
      job_message := message, job_currentSegment := currentSegment,
      job_status := (if stg = Complete then StatusComplete
                     else if stg = Error then StatusError else Processing)\<rparr>)"

definition completeJob ::
  "string \<Rightarrow> string \<Rightarrow> segmentCaptions list option \<Rightarrow> (world, unit) run" where
  "completeJob jobId outputUrl captions =
    updateJob jobId (\<lambda>j. j\<lparr>job_status := StatusComplete, job_stage := Complete,
      job_progress := 100, job_message := S ''Processing complete'',
      job_outputUrl := Some outputUrl, job_captions := captions\<rparr>)"

definition failJob :: "string \<Rightarrow> jstr \<Rightarrow> (world, unit) run" where
  "failJob jobId err =
    updateJob jobId (\<lambda>j. j\<lparr>job_status := StatusError, job_stage := Error,
      job_message := S ''Processing failed'', job_error := Some err\<rparr>)"

subsection \<open>The server-side orchestrator (processVideo of lib/server/processor.ts)\<close>

text \<open>
  What the processor reaches outside the repository: \<open>getFFmpeg()\<close>, \<open>fetch(url)\<close> with
  the response's \<open>ok\<close> flag and body, and the blob store's \<open>put\<close>, which returns the URL
  of the uploaded file.
\<close>

record serverEnv =
  env_getFFmpeg :: "exn + ffmpeg"
  env_fetch :: "string \<Rightarrow> exn + bool \<times> blob"
  env_put :: "jstr \<Rightarrow> blob \<Rightarrow> exn + string"

definition downloadFile :: "serverEnv \<Rightarrow> string \<Rightarrow> (world, blob) run" where
  "downloadFile env url =
    bindM (liftResult (env_fetch env url)) (\<lambda>(ok, body).
    if \<not> ok then throwM (Err (T [S ''Failed to download: '', S url])) else retM body)"

definition segmentProgress :: "job \<Rightarrow> nat \<Rightarrow> real" where
  "segmentProgress j i = (real (i + 1) / real (length (job_segments j))) * 100"

definition ofTotal :: "job \<Rightarrow> nat \<Rightarrow> jstr list" where
  "ofTotal j i = [N (real (i + 1)), S ''/'', N (real (length (job_segments j))), S ''...'']"

fun ttsLoop :: "job \<Rightarrow> nat \<Rightarrow> segment list \<Rightarrow> (world, (blob \<times> real) list) run" where
  "ttsLoop j i [] = retM []"
| "ttsLoop j i (seg # rest) =
     bindM (updateJobProgress (job_id j) Tts (segmentProgress j i)
              (T (S ''Synthesizing segment '' # ofTotal j i)) (Some (i + 1))) (\<lambda>u.
     bindM (retM (generateTTS (script seg) (job_voiceId j))) (\<lambda>result.
     bindM (ttsLoop j (i + 1) rest) (\<lambda>results.
     retM (result # results))))"

fun segmentLoop ::
  "ffmpeg \<Rightarrow> job \<Rightarrow> blob \<Rightarrow> nat \<Rightarrow> (segment \<times> blob \<times> real) list \<Rightarrow>
   (world, stitchSegment list) run" where
  "segmentLoop ff j videoData i [] = retM []"
| "segmentLoop ff j videoData i ((seg, ttsAudio, ttsDuration) # rest) =
     bindM (updateJobProgress (job_id j) Detecting (segmentProgress j i * (5 / 10))
              (T (S ''Extracting clip '' # ofTotal j i)) (Some (i + 1))) (\<lambda>u.
     bindM (onFiles (processor_extractClip ff videoData (sourceTimestamp seg) 10
              (T [S ''clip_'', N (real i), S ''.mp4'']))) (\<lambda>clipData.
     bindM (updateJobProgress (job_id j) Cropping (segmentProgress j i * (7 / 10))
              (T (S ''Cropping clip '' # ofTotal j i)) (Some (i + 1))) (\<lambda>u.
     bindM (onFiles (processor_applyCrop ff clipData
              (T [S ''cropped_'', N (real i), S ''.mp4'']))) (\<lambda>croppedData.
     bindM (updateJobProgress (job_id j) Cropping (segmentProgress j i * (9 / 10))
              (T (S ''Adjusting duration '' # ofTotal j i)) (Some (i + 1))) (\<lambda>u.
     bindM (onFiles (processor_adjustDuration ff croppedData ttsDuration
              (T [S ''adjusted_'', N (real i), S ''.mp4'']))) (\<lambda>adjustedData.
     bindM (segmentLoop ff j videoData (i + 1) rest) (\<lambda>processed.
     retM (\<lparr>st_video = adjustedData, st_audio = ttsAudio, st_duration = ttsDuration\<rparr>
           # processed))))))))"

text \<open>\<open>if (job.musicUrl)\<close>: a missing or empty URL is falsy.\<close>

definition loadMusic :: "serverEnv \<Rightarrow> job \<Rightarrow> (world, blob option) run" where
  "loadMusic env j =
    (case job_musicUrl j of
       None \<Rightarrow> retM None
     | Some url \<Rightarrow>
         if url = [] then retM None
         else bindM (updateJobProgress (job_id j) Stitching 0
                       (S ''Loading background music...'') None) (\<lambda>u.
              bindM (downloadFile env url) (\<lambda>musicBuffer.
              retM (Some musicBuffer))))"

text \<open>The body of the \<open>try\<close> block of \<open>processVideo\<close>.\<close>

definition processVideo_try :: "serverEnv \<Rightarrow> job \<Rightarrow> (world, unit) run" where
  "processVideo_try env j =
     bindM (updateJobProgress (job_id j) Loading 0 (S ''Loading FFmpeg...'') None) (\<lambda>u.
     bindM (liftResult (env_getFFmpeg env)) (\<lambda>ff.
     bindM (updateJobProgress (job_id j) Loading 100 (S ''FFmpeg loaded'') None) (\<lambda>u.
     bindM (updateJobProgress (job_id j) Extracting 0 (S ''Downloading source video...'') None)
       (\<lambda>u.
     bindM (downloadFile env (job_videoUrl j)) (\<lambda>videoData.
     bindM (updateJobProgress (job_id j) Extracting 20 (S ''Source video downloaded'') None)
       (\<lambda>u.
     bindM (updateJobProgress (job_id j) Tts 0 (S ''Generating voiceover...'') None) (\<lambda>u.
     bindM (ttsLoop j 0 (job_segments j)) (\<lambda>ttsResults.
     bindM (updateJobProgress (job_id j) Detecting 0 (S ''Processing video segments...'') None)
       (\<lambda>u.
     bindM (segmentLoop ff j videoData 0 (zip (job_segments j) ttsResults))
       (\<lambda>processedSegments.
     bindM (loadMusic env j) (\<lambda>musicData.
     bindM (updateJobProgress (job_id j) Stitching 20 (S ''Stitching final video...'') None)
       (\<lambda>u.
     bindM (onFiles (processor_stitchSegments ff processedSegments musicData
              (job_musicVolume j))) (\<lambda>finalVideo.
     bindM (updateJobProgress (job_id j) Stitching 80 (S ''Uploading final video...'') None)
       (\<lambda>u.
     bindM (liftResult (env_put env (T [S ''outputs/'', S (job_id j), S ''/final.mp4''])
              finalVideo)) (\<lambda>uploadedUrl.
     completeJob (job_id j) uploadedUrl
       (if job_includeCaptions j
        then Some (processor_generateCaptions (job_segments j) (map snd ttsResults))
        else None))))))))))))))))"

text \<open>\<open>processVideo(job)\<close>: the \<open>catch\<close> block hands the exception's message to \<open>failJob\<close>.\<close>

definition processVideo :: "serverEnv \<Rightarrow> job \<Rightarrow> (world, unit) run" where
  "processVideo env j w =
    (case processVideo_try env j w of
       (Inl e, w') \<Rightarrow> failJob (job_id j) (errorMessage e) w'
     | (Inr u, w') \<Rightarrow> (Inr (), w'))"

subsection \<open>The browser-side orchestrator (processVideo of components/wizard/ProcessStep.tsx)\<close>

text \<open>\<open>ProcessingState\<close>; its stages are those of the server without \<open>queued\<close>.\<close>

record processingState =
  ps_stage :: stage
  ps_currentSegment :: nat
  ps_totalSegments :: nat
  ps_progress :: real
  ps_message :: jstr
  ps_error :: "jstr option"


text \<open>
  What the component reaches outside lib/ffmpeg and lib/utils: \<open>getFFmpeg()\<close>, the speech
  synthesizer, the video element that reports a clip's dimensions and duration, the
  face locator (\<open>extractFrames\<close> followed by \<open>analyzeFramesForFaces\<close>, taken as one step
  whose scratch files are not followed), and the fetch of the music file, whose failure
  is swallowed (\<open>None\<close>).
\<close>

record browserEnv =
  benv_getFFmpeg :: "exn + ffmpeg"
  benv_synthesizeText :: "string \<Rightarrow> string \<Rightarrow> exn + blob \<times> real"
  benv_getVideoDimensions :: "blob \<Rightarrow> exn + int \<times> int"
  benv_getVideoDuration :: "blob \<Rightarrow> exn + real"
  benv_locateFaces :: "blob \<Rightarrow> exn + point option list"
  benv_fetchMusic :: "string \<Rightarrow> blob option"

text \<open>
  The state of the component: the FFmpeg files, the processing state, every value
  \<open>updateProgress\<close> gave it in order (\<open>b_updates\<close>), and the two outputs.
\<close>

record browser =
  b_files :: fs
  b_state :: processingState
  b_updates :: "processingState list"
  b_outputVideo :: "blob option"
  b_captions :: "segmentCaptions list option"

definition onBrowserFiles :: "(fs, 'a) run \<Rightarrow> (browser, 'a) run" where
  "onBrowserFiles m b = (case m (b_files b) of (r, files') \<Rightarrow> (r, b\<lparr>b_files := files'\<rparr>))"








text \<open>
  One round of the detection loop. \<open>cropRegion\<close> is computed from
  \<open>calculateOptimalCrop\<close> and never used: the clip is cropped by \<open>smartCrop\<close>, which
  works its own region out from the same face centres.
\<close>

definition processClip :: "browserEnv \<Rightarrow> ffmpeg \<Rightarrow> blob \<Rightarrow> real \<Rightarrow> (browser, blob) run" where
  "processClip env ff clip audioDuration =
     bindM (liftResult (benv_getVideoDimensions env clip)) (\<lambda>(width, height).
     bindM (liftResult (benv_locateFaces env clip)) (\<lambda>faceCenters.
     let cropRegion = calculateOptimalCrop faceCenters width height
     in bindM (onBrowserFiles (smartCrop ff clip faceCenters width height)) (\<lambda>croppedClip.
        bindM (liftResult (benv_getVideoDuration env croppedClip)) (\<lambda>clipDuration.
        onBrowserFiles (adjustDuration ff croppedClip audioDuration clipDuration)))))"






subsection \<open>Status traces and the order of the stages\<close>











subsection \<open>The writes of a run, listed\<close>

text \<open>
  \<open>emits tr m xs zs Q\<close>: from any state, the run \<open>m\<close> appends to the trace \<open>tr\<close> of the
  state the writes \<open>xs\<close> and then \<open>zs\<close> and returns a value that satisfies \<open>Q\<close>, or it
  throws after the first \<open>k\<close> writes of \<open>xs\<close>, for some \<open>k\<close>.
\<close>

definition emits ::
  "('s \<Rightarrow> 'x list) \<Rightarrow> ('s, 'a) run \<Rightarrow> 'x list \<Rightarrow> 'x list \<Rightarrow> ('a \<Rightarrow> bool) \<Rightarrow> bool" where
  "emits tr m xs zs Q =
    (\<forall>s. case m s of
            (Inl e, s') \<Rightarrow> (\<exists>k. tr s' = tr s @ take k xs)
          | (Inr v, s') \<Rightarrow> tr s' = tr s @ xs @ zs \<and> Q v)"

text \<open>The writes of the processor's two loops, from index \<open>i\<close>, for \<open>c\<close> more segments.\<close>

fun ttsWrites :: "nat \<Rightarrow> nat \<Rightarrow> nat \<Rightarrow> (stage \<times> real) list" where
  "ttsWrites n i 0 = []"
| "ttsWrites n i (Suc c) = (Tts, (real (i + 1) / real n) * 100) # ttsWrites n (i + 1) c"

fun segmentWrites :: "nat \<Rightarrow> nat \<Rightarrow> nat \<Rightarrow> (stage \<times> real) list" where
  "segmentWrites n i 0 = []"
| "segmentWrites n i (Suc c) =
     (Detecting, (real (i + 1) / real n) * 100 * (5 / 10))
     # (Cropping, (real (i + 1) / real n) * 100 * (7 / 10))
     # (Cropping, (real (i + 1) / real n) * 100 * (9 / 10))
     # segmentWrites n (i + 1) c"

text \<open>
  Everything the processor writes before \<open>complete\<close>, for \<open>n\<close> segments, with or without
  a music URL.
\<close>

definition processorWrites :: "nat \<Rightarrow> bool \<Rightarrow> (stage \<times> real) list" where
  "processorWrites n music =
    [(Loading, 0), (Loading, 100), (Extracting, 0), (Extracting, 20), (Tts, 0)]
    @ ttsWrites n 0 n
    @ [(Detecting, 0)]
    @ segmentWrites n 0 n
    @ (if music then [(Stitching, 0)] else [])
    @ [(Stitching, 20), (Stitching, 80)]"




subsection \<open>Concrete engines and jobs\<close>


text \<open>
  An engine whose commands all end without writing any file, as ffmpeg does when it
  gives up on its input.
\<close>

definition idleEngine :: ffmpeg where
  "idleEngine = \<lparr>ff_exec = (\<lambda>args fls. (None, fls)), ff_missing = (\<lambda>name. Thrown)\<rparr>"

text \<open>A job of one segment whose source timestamp, 5 s, lies beyond a source of 3 s.\<close>

definition exampleJob :: job where
  "exampleJob =
    \<lparr>job_id = ''job-1'', job_status = Pending, job_stage = Queued, job_progress = 0,
     job_currentSegment = Some 0, job_totalSegments = 1, job_message = S ''Job queued'',
     job_error = None, job_videoUrl = ''https://example.org/source.mp4'',
     job_segments =
       [\<lparr>seg_id = ''a'', script = ''Hi there.'', sourceTimestamp = 5, outputTime = 0\<rparr>],
     job_voiceId = ''en_US-lessac-medium'', job_musicUrl = None, job_musicVolume = 3 / 10,
     job_includeCaptions = False, job_outputUrl = None, job_captions = None\<rparr>"

definition exampleWorld :: world where
  "exampleWorld =
    \<lparr>files = Map.empty, memoryStore = [''job-1'' \<mapsto> exampleJob], history = []\<rparr>"



definition exampleEnv :: "ffmpeg \<Rightarrow> serverEnv" where
  "exampleEnv ff =
    \<lparr>env_getFFmpeg = Inr ff,
     env_fetch = (\<lambda>url. Inr (True, Bytes [1, 2, 3])),
     env_put = (\<lambda>name content. Inr ''https://blob.example.org/final.mp4'')\<rparr>"

text \<open>A project of two segments in the component, with every outside step succeeding.\<close>

definition exampleBrowserEnv :: "ffmpeg \<Rightarrow> browserEnv" where
  "exampleBrowserEnv ff =
    \<lparr>benv_getFFmpeg = Inr ff,
     benv_synthesizeText = (\<lambda>script_text voice. Inr (Bytes [], 2)),
     benv_getVideoDimensions = (\<lambda>clip. Inr (720, 1600)),
     benv_getVideoDuration = (\<lambda>clip. Inr 10),
     benv_locateFaces = (\<lambda>clip. Inr [None, None]),
     benv_fetchMusic = (\<lambda>filePath. None)\<rparr>"



text \<open>Two located faces, the later one further right, in a 1920 by 1080 frame.\<close>

definition twoFaces :: "point option list" where
  "twoFaces = [Some \<lparr>px = 400, py = 300\<rparr>, Some \<lparr>px = 1000, py = 300\<rparr>]"

definition hiThere :: segment where
  "hiThere = \<lparr>seg_id = ''a'', script = ''Hi there.'', sourceTimestamp = 0, outputTime = 0\<rparr>"

section \<open>Properties\<close>

subsection \<open>Rounding and the crop rectangle\<close>

lemma round_le_int: "v \<le> real_of_int k \<Longrightarrow> js_round v \<le> k"
  unfolding js_round_def by linarith

lemma round_ge0: "0 \<le> v \<Longrightarrow> 0 \<le> js_round v"
  unfolding js_round_def by linarith

lemma round_pos: "1 / 2 \<le> v \<Longrightarrow> 0 < js_round v"
  unfolding js_round_def by linarith

lemma round_near: "\<bar>real_of_int (js_round v) - v\<bar> \<le> 1 / 2"
  unfolding js_round_def by linarith

lemma round_half_le: "0 \<le> d \<Longrightarrow> js_round (real_of_int d / 2) \<le> d"
  unfolding js_round_def by linarith

lemma cropSize_props:
  assumes "0 < videoWidth" "0 < videoHeight" "cropSize videoWidth videoHeight = (w, h)"
  shows "0 < w \<and> 0 < h \<and> w \<le> videoWidth \<and> h \<le> videoHeight \<and>
         \<bar>real_of_int w - real_of_int h * (9 / 16)\<bar> \<le> 1 \<and>
         \<bar>real_of_int h - real_of_int w * (16 / 9)\<bar> \<le> 1"
proof (cases "real_of_int videoWidth / real_of_int videoHeight > 9 / 16")
  case True
  then have wh: "w = js_round (real_of_int videoHeight * (9 / 16))" "h = videoHeight"
    using assms(3) unfolding cropSize_def by auto
  have gt: "real_of_int videoHeight * (9 / 16) < real_of_int videoWidth"
    using True assms(2) by (simp add: field_simps)
  have "w \<le> videoWidth" unfolding wh by (rule round_le_int) (use gt in linarith)
  moreover have "0 < w" unfolding wh by (rule round_pos) (use assms(2) in linarith)
  moreover have "\<bar>real_of_int w - real_of_int h * (9 / 16)\<bar> \<le> 1 / 2"
    unfolding wh by (rule round_near)
  then have "\<bar>real_of_int w - real_of_int h * (9 / 16)\<bar> \<le> 1 \<and>
             \<bar>real_of_int h - real_of_int w * (16 / 9)\<bar> \<le> 1"
    by linarith
  ultimately show ?thesis using wh(2) assms(2) by blast
next
  case False
  then have wh: "w = videoWidth" "h = js_round (real_of_int videoWidth / (9 / 16))"
    using assms(3) unfolding cropSize_def by auto
  have le: "real_of_int videoWidth / (9 / 16) \<le> real_of_int videoHeight"
    using False assms(2) by (simp add: field_simps)
  have "h \<le> videoHeight" unfolding wh by (rule round_le_int) (rule le)
  moreover have "0 < h" unfolding wh by (rule round_pos) (use assms(1) in simp)
  moreover have "real_of_int w / (9 / 16) = real_of_int w * (16 / 9)"
    by simp
  then have "\<bar>real_of_int h - real_of_int w * (16 / 9)\<bar> \<le> 1 / 2"
    using round_near[of "real_of_int w / (9 / 16)"] wh by metis
  then have "\<bar>real_of_int w - real_of_int h * (9 / 16)\<bar> \<le> 1 \<and>
             \<bar>real_of_int h - real_of_int w * (16 / 9)\<bar> \<le> 1"
    by linarith
  ultimately show ?thesis using wh(1) assms(1) by blast
qed

lemma calculateOptimalCrop_cropSize:
  "calculateOptimalCrop faceCenters videoWidth videoHeight =
    (let t = targetCenter faceCenters videoWidth videoHeight;
         (w, h) = cropSize videoWidth videoHeight
     in \<lparr>crop_x = max 0 (min (js_round (px t - real_of_int w / 2)) (videoWidth - w)),
         crop_y = max 0 (min (js_round (py t - real_of_int h / 3)) (videoHeight - h)),
         crop_width = w, crop_height = h\<rparr>)"
  by (simp add: calculateOptimalCrop_def cropSize_def TARGET_ASPECT_def OUTPUT_WIDTH_def
      OUTPUT_HEIGHT_def Let_def)

lemma calculateCropRegion_cropSize:
  "calculateCropRegion videoWidth videoHeight faceCenter =
    (let (w, h) = cropSize videoWidth videoHeight
     in case faceCenter of
          None \<Rightarrow> \<lparr>crop_x = js_round (real_of_int (videoWidth - w) / 2),
                    crop_y = js_round (real_of_int (videoHeight - h) / 2),
                    crop_width = w, crop_height = h\<rparr>
        | Some c \<Rightarrow>
            \<lparr>crop_x = max 0 (min (js_round (px c - real_of_int w / 2)) (videoWidth - w)),
             crop_y = max 0 (min (js_round (py c - real_of_int h / 3)) (videoHeight - h)),
             crop_width = w, crop_height = h\<rparr>)"
  by (simp add: calculateCropRegion_def cropSize_def Let_def split: option.splits)

lemma optimalCrop_invariant:
  assumes "0 < videoWidth" "0 < videoHeight"
  shows "cropInvariant videoWidth videoHeight
           (calculateOptimalCrop faceCenters videoWidth videoHeight)"
proof -
  obtain w h where wh: "cropSize videoWidth videoHeight = (w, h)"
    by (cases "cropSize videoWidth videoHeight")
  from cropSize_props[OF assms wh] show ?thesis
    unfolding calculateOptimalCrop_cropSize wh cropInvariant_def Let_def
    by (simp del: of_int_diff) linarith
qed

lemma cropRegion_invariant:
  assumes "0 < videoWidth" "0 < videoHeight"
  shows "cropInvariant videoWidth videoHeight
           (calculateCropRegion videoWidth videoHeight faceCenter)"
proof -
  obtain w h where wh: "cropSize videoWidth videoHeight = (w, h)"
    by (cases "cropSize videoWidth videoHeight")
  note p = cropSize_props[OF assms wh]
  have x0: "0 \<le> js_round (real_of_int (videoWidth - w) / 2)"
    by (rule round_ge0) (use p in simp)
  have y0: "0 \<le> js_round (real_of_int (videoHeight - h) / 2)"
    by (rule round_ge0) (use p in simp)
  have x1: "js_round (real_of_int (videoWidth - w) / 2) \<le> videoWidth - w"
    by (rule round_half_le) (use p in simp)
  have y1: "js_round (real_of_int (videoHeight - h) / 2) \<le> videoHeight - h"
    by (rule round_half_le) (use p in simp)
  show ?thesis
    using p x0 y0 x1 y1
    unfolding calculateCropRegion_cropSize wh cropInvariant_def
    by (cases faceCenter) (simp_all del: of_int_diff, linarith+)
qed

text \<open>
  Claim C5 (crop bounds invariant). For every list of subject points, the empty list and
  lists of nulls included, and every frame of positive width and height, the region that
  \<open>calculateOptimalCrop\<close> returns, and the one \<open>calculateCropRegion\<close> returns for the
  averaged centre of \<open>smartCrop\<close>, satisfy \<open>0 \<le> x\<close>, \<open>0 \<le> y\<close>,
  \<open>x + width \<le> frameWidth\<close>, \<open>y + height \<le> frameHeight\<close>, and width and height are
  in the ratio 9:16 to within one pixel.
\<close>

theorem crop_bounds_invariant:
  assumes "0 < videoWidth" and "0 < videoHeight"
  shows "cropInvariant videoWidth videoHeight
           (calculateOptimalCrop faceCenters videoWidth videoHeight) \<and>
         cropInvariant videoWidth videoHeight
           (calculateCropRegion videoWidth videoHeight (averageCenter faceCenters))"
  using optimalCrop_invariant[OF assms] cropRegion_invariant[OF assms] by simp

theorem crop_bounds_invariant_witness:
  "(0::int) < 720 \<and> (0::int) < 1600 \<and>
   cropInvariant 720 1600 (calculateOptimalCrop [None] 720 1600) \<and>
   cropInvariant 720 1600 (calculateCropRegion 720 1600 (averageCenter [None])) \<and>
   calculateOptimalCrop [None] 720 1600 =
     \<lparr>crop_x = 0, crop_y = 107, crop_width = 720, crop_height = 1280\<rparr>"
proof -
  have h1: "(0::int) < 720" and h2: "(0::int) < 1600" by simp_all
  have v: "calculateOptimalCrop [None] 720 1600 =
     \<lparr>crop_x = 0, crop_y = 107, crop_width = 720, crop_height = 1280\<rparr>"
    by (simp add: calculateOptimalCrop_def targetCenter_def validCenters_def TARGET_ASPECT_def
        OUTPUT_WIDTH_def OUTPUT_HEIGHT_def js_round_def Let_def)
  show ?thesis using crop_bounds_invariant[OF h1 h2, of "[None]"] v by simp
qed

subsection \<open>Caption timing\<close>

lemma wordsOf_nonempty: "w \<in> set (wordsOf t) \<Longrightarrow> w \<noteq> []"
  by (simp add: wordsOf_def)

lemma wordWeight_eq: "wordWeight w = real (length w) + pauseBonus w"
  by (auto simp: wordWeight_def pauseBonus_def endsWith_def Let_def)

lemma wordWeight_pos: "w \<noteq> [] \<Longrightarrow> 0 < wordWeight w"
  by (auto simp: wordWeight_def endsWith_def Let_def intro: add_pos_pos)

lemma timingLoop_length:
  "length wts = length ws \<Longrightarrow> length (timingLoop ws wts tpw cur) = length ws"
  by (induction ws wts tpw cur rule: timingLoop.induct) (auto simp: Let_def)

lemma timingLoop_text:
  "length wts = length ws \<Longrightarrow> map word_text (timingLoop ws wts tpw cur) = ws"
  by (induction ws wts tpw cur rule: timingLoop.induct) (auto simp: Let_def)

lemma timingLoop_durations:
  "length wts = length ws \<Longrightarrow>
   map (\<lambda>w. word_endTime w - word_startTime w) (timingLoop ws wts tpw cur) =
   map (\<lambda>wt. wt * tpw) wts"
  by (induction ws wts tpw cur rule: timingLoop.induct) (auto simp: Let_def)

lemma timingLoop_tiles:
  "length wts = length ws \<Longrightarrow> ws \<noteq> [] \<Longrightarrow> \<forall>wt \<in> set wts. 0 < wt * tpw \<Longrightarrow>
   tilesFrom cur (timingLoop ws wts tpw cur) (cur + sum_list wts * tpw)"
proof (induction ws wts tpw cur rule: timingLoop.induct)
  case (1 w ws wt wts tpw cur)
  show ?case
  proof (cases ws)
    case Nil
    then show ?thesis using 1 by (simp add: Let_def)
  next
    case (Cons w' ws')
    then obtain wt' wts' where wts: "wts = wt' # wts'"
      using 1(2) by (cases wts) auto
    have "tilesFrom (cur + wt * tpw) (timingLoop ws wts tpw (cur + wt * tpw))
            (cur + wt * tpw + sum_list wts * tpw)"
      using 1 Cons by (simp add: Let_def)
    then show ?thesis using 1(4) Cons wts by (simp add: Let_def algebra_simps)
  qed
qed simp_all

lemma tilesFrom_last: "tilesFrom a ts b \<Longrightarrow> ts \<noteq> [] \<and> word_endTime (last ts) = b"
  by (induction a ts b rule: tilesFrom.induct) auto

lemma setLastEndTime_same:
  "ts \<noteq> [] \<Longrightarrow> word_endTime (last ts) = e \<Longrightarrow> setLastEndTime ts e = ts"
  by (simp add: setLastEndTime_def last_conv_nth list_update_same_conv)

lemma sum_list_pos_real:
  fixes xs :: "real list"
  shows "xs \<noteq> [] \<Longrightarrow> \<forall>v \<in> set xs. 0 < v \<Longrightarrow> 0 < sum_list xs"
proof (induction xs)
  case Nil
  then show ?case by simp
next
  case (Cons a xs)
  then show ?case by (cases xs) (auto intro: add_pos_pos)
qed

lemma sum_weights_pos:
  assumes "ws \<noteq> []" "\<forall>w \<in> set ws. w \<noteq> []"
  shows "0 < sum_list (map wordWeight ws)"
  using assms by (intro sum_list_pos_real) (auto simp: wordWeight_pos)

lemma captionsLoop_nth:
  "k < length segs \<Longrightarrow>
   captionsLoop segs ds i cum ! k =
     \<lparr>segmentId = seg_id (segs ! k),
      cap_words = estimateWordTimings (script (segs ! k))
        (cum + sum_list (map (durationOrDefault ds) [i..<i + k]))
        (durationOrDefault ds (i + k))\<rparr>"
proof (induction segs ds i cum arbitrary: k rule: captionsLoop.induct)
  case (1 durations i cumulativeTime)
  then show ?case by simp
next
  case (2 seg rest durations i cumulativeTime)
  show ?case
  proof (cases k)
    case 0
    then show ?thesis by (simp add: Let_def)
  next
    case (Suc k')
    then have k': "k' < length rest" using 2(2) by simp
    have e: "sum_list (map (durationOrDefault durations) [i..<i + Suc k']) =
             durationOrDefault durations i +
             sum_list (map (durationOrDefault durations) [Suc i..<Suc i + k'])"
      by (simp add: upt_conv_Cons del: upt_Suc)
    show ?thesis
      unfolding Suc using 2(1)[OF refl refl k'] e
      by (simp add: Let_def add.assoc del: upt_Suc)
  qed
qed

lemma captionsLoop_length: "length (captionsLoop segs ds i cum) = length segs"
  by (induction segs ds i cum rule: captionsLoop.induct) (auto simp: Let_def)


lemma timingLoop_last_end:
  "length wts = length ws \<Longrightarrow> ws \<noteq> [] \<Longrightarrow>
   word_endTime (last (timingLoop ws wts tpw cur)) = cur + sum_list wts * tpw"
proof (induction ws wts tpw cur rule: timingLoop.induct)
  case (1 w ws wt wts tpw cur)
  show ?case
  proof (cases ws)
    case Nil
    then show ?thesis using 1 by (simp add: Let_def)
  next
    case (Cons w' ws')
    then obtain wt' wts' where wts: "wts = wt' # wts'"
      using 1(2) by (cases wts) auto
    have "word_endTime (last (timingLoop ws wts tpw (cur + wt * tpw))) =
            cur + wt * tpw + sum_list wts * tpw"
      using 1 Cons by (simp add: Let_def)
    then show ?thesis using Cons wts by (simp add: Let_def algebra_simps)
  qed
qed simp_all

lemma estimateWordTimings_eq_loop:
  assumes "wordsOf t \<noteq> []"
  shows "estimateWordTimings t s d =
           timingLoop (wordsOf t) (map wordWeight (wordsOf t))
             (d / sum_list (map wordWeight (wordsOf t))) s"
proof -
  let ?ws = "wordsOf t"
  let ?wts = "map wordWeight ?ws"
  let ?W = "sum_list ?wts"
  let ?ts = "timingLoop ?ws ?wts (d / ?W) s"
  have W: "0 < ?W"
    using assms by (intro sum_weights_pos) (auto simp: wordsOf_nonempty)
  have "word_endTime (last ?ts) = s + ?W * (d / ?W)"
    using assms by (intro timingLoop_last_end) simp_all
  then have "word_endTime (last ?ts) = s + d" using W by simp
  moreover have "?ts \<noteq> []"
    using assms timingLoop_length[of ?wts ?ws "d / ?W" s] by auto
  ultimately have "setLastEndTime ?ts (s + d) = ?ts"
    by (intro setLastEndTime_same)
  then show ?thesis using assms by (simp add: estimateWordTimings_def Let_def)
qed

lemma estimateWordTimings_tiles:
  assumes "wordsOf t \<noteq> []" "0 < d"
  shows "tilesFrom s (estimateWordTimings t s d) (s + d)"
proof -
  let ?ws = "wordsOf t"
  let ?wts = "map wordWeight ?ws"
  let ?W = "sum_list ?wts"
  let ?tpw = "d / ?W"
  have W: "0 < ?W"
    using assms(1) by (intro sum_weights_pos) (auto simp: wordsOf_nonempty)
  then have tpw: "0 < ?tpw" using assms(2) by simp
  have pos: "\<forall>wt \<in> set ?wts. 0 < wt * ?tpw"
  proof
    fix wt assume "wt \<in> set ?wts"
    then obtain w where "w \<in> set ?ws" "wt = wordWeight w" by auto
    then have "0 < wt" using wordsOf_nonempty wordWeight_pos by blast
    then show "0 < wt * ?tpw" using tpw by (rule mult_pos_pos)
  qed
  have "tilesFrom s (timingLoop ?ws ?wts ?tpw s) (s + ?W * ?tpw)"
    using assms(1) pos by (intro timingLoop_tiles) simp_all
  moreover have "?W * ?tpw = d" using W by simp
  ultimately show ?thesis
    by (simp only: estimateWordTimings_eq_loop[OF assms(1)])
qed

text \<open>
  Claim C6 (caption coverage), as amended. For every segment whose script has at least
  one whitespace-delimited word and whose voiceover duration is positive, the words
  \<open>estimateWordTimings\<close> returns tile the interval from the segment's start time to
  start time plus duration: the first word starts at the start time (0 for a segment
  timed on its own), every other word starts where the word before it ends, no word is
  empty, and the last word ends at start plus duration exactly. In \<open>generateCaptions\<close>
  the start time of segment \<open>i\<close> is the sum of the durations used for the segments
  before it.
\<close>

theorem caption_tiling:
  assumes "i < length segments" and "i < length durations" and "0 < durations ! i"
    and "wordsOf (script (segments ! i)) \<noteq> []"
  shows "tilesFrom startTime
           (estimateWordTimings (script (segments ! i)) startTime (durations ! i))
           (startTime + durations ! i) \<and>
         tilesFrom (sum_list (map (durationOrDefault durations) [0..<i]))
           (cap_words (generateCaptions segments durations ! i))
           (sum_list (map (durationOrDefault durations) [0..<i]) + durations ! i)"
proof -
  have d: "durationOrDefault durations i = durations ! i"
    using assms(2,3) by (simp add: durationOrDefault_def)
  have "cap_words (generateCaptions segments durations ! i) =
          estimateWordTimings (script (segments ! i))
            (sum_list (map (durationOrDefault durations) [0..<i])) (durations ! i)"
    using captionsLoop_nth[OF assms(1), of durations 0 0] d
    by (simp add: generateCaptions_def)
  then show ?thesis
    using estimateWordTimings_tiles[OF assms(4,3)] by simp
qed

lemma words_example1: "wordsOf ''Hi there.'' = [''Hi'', ''there.'']"
  by (simp add: wordsOf_def trim_def isSpace_def)

lemma words_example2: "wordsOf ''One, two'' = [''One,'', ''two'']"
  by (simp add: wordsOf_def trim_def isSpace_def)

theorem caption_tiling_witness:
  "tilesFrom 0 (estimateWordTimings ''One, two'' 0 (17 / 2)) (17 / 2) \<and>
   tilesFrom 7 (cap_words (generateCaptions exampleSegments [7, 17 / 2] ! 1)) (7 + 17 / 2)"
proof -
  have h1: "1 < length exampleSegments" by (simp add: exampleSegments_def)
  have h2: "1 < length [7, 17 / 2 :: real]" by simp
  have h3: "0 < [7, 17 / 2 :: real] ! 1" by simp
  have h4: "wordsOf (script (exampleSegments ! 1)) \<noteq> []"
    by (simp add: exampleSegments_def words_example2)
  show ?thesis
    using caption_tiling[OF h1 h2 h3 h4, of 0]
    by (simp add: durationOrDefault_def exampleSegments_def)
qed

text \<open>
  A script of one space is not empty, yet it has no word: \<open>estimateWordTimings\<close> returns
  the empty list for it, which tiles nothing and has no last word.
\<close>

theorem caption_tiling_counterexample:
  "'' '' \<noteq> [] \<and> (0::real) < 1 \<and>
   estimateWordTimings '' '' 0 1 = [] \<and>
   \<not> tilesFrom 0 (estimateWordTimings '' '' 0 1) 1 \<and>
   cap_words (generateCaptions
     [\<lparr>seg_id = ''a'', script = '' '', sourceTimestamp = 0, outputTime = 0\<rparr>] [1] ! 0) = []"
proof -
  have w: "wordsOf '' '' = []" by (simp add: wordsOf_def trim_def isSpace_def)
  have e: "estimateWordTimings '' '' s d = []" for s d
    by (simp add: estimateWordTimings_def w)
  show ?thesis by (simp add: e generateCaptions_def Let_def)
qed

lemma sum_list_scaled:
  fixes c :: real
  shows "sum_list (map (\<lambda>v. v * c) xs) = sum_list xs * c"
  by (induction xs) (simp_all add: algebra_simps)

lemma estimateWordTimings_weights:
  assumes "wordsOf script_text \<noteq> []"
  shows "map word_text (estimateWordTimings script_text startTime duration) =
           wordsOf script_text \<and>
         (\<forall>i < length (wordsOf script_text).
            word_endTime (estimateWordTimings script_text startTime duration ! i) -
            word_startTime (estimateWordTimings script_text startTime duration ! i) =
            (real (length (wordsOf script_text ! i)) + pauseBonus (wordsOf script_text ! i)) *
            (duration /
             sum_list (map (\<lambda>w. real (length w) + pauseBonus w) (wordsOf script_text)))) \<and>
         sum_list (map (\<lambda>w. word_endTime w - word_startTime w)
           (estimateWordTimings script_text startTime duration)) = duration"
proof -
  let ?ws = "wordsOf script_text"
  let ?wts = "map wordWeight ?ws"
  let ?W = "sum_list ?wts"
  let ?ts = "estimateWordTimings script_text startTime duration"
  have eq: "?ts = timingLoop ?ws ?wts (duration / ?W) startTime"
    by (rule estimateWordTimings_eq_loop[OF assms])
  have wts: "?wts = map (\<lambda>w. real (length w) + pauseBonus w) ?ws"
    by (simp add: wordWeight_eq)
  have W: "0 < ?W"
    using assms by (intro sum_weights_pos) (auto simp: wordsOf_nonempty)
  have durs: "map (\<lambda>w. word_endTime w - word_startTime w) ?ts =
                map (\<lambda>wt. wt * (duration / ?W)) ?wts"
    unfolding eq by (rule timingLoop_durations) simp
  have 1: "map word_text ?ts = ?ws"
    unfolding eq by (rule timingLoop_text) simp
  have len: "length ?ts = length ?ws"
    unfolding eq by (rule timingLoop_length) simp
  have 2: "word_endTime (?ts ! i) - word_startTime (?ts ! i) =
             (real (length (?ws ! i)) + pauseBonus (?ws ! i)) *
             (duration / sum_list (map (\<lambda>w. real (length w) + pauseBonus w) ?ws))"
    if "i < length ?ws" for i
  proof -
    have "map (\<lambda>w. word_endTime w - word_startTime w) ?ts ! i =
            map (\<lambda>wt. wt * (duration / ?W)) ?wts ! i"
      by (simp only: durs)
    then have "word_endTime (?ts ! i) - word_startTime (?ts ! i) =
                 wordWeight (?ws ! i) * (duration / ?W)"
      using that len by simp
    then show ?thesis by (simp only: wts wordWeight_eq)
  qed
  have "sum_list (map (\<lambda>wt. wt * (duration / ?W)) ?wts) = ?W * (duration / ?W)"
    by (rule sum_list_scaled)
  then have 3: "sum_list (map (\<lambda>w. word_endTime w - word_startTime w) ?ts) = duration"
    using W durs by simp
  show ?thesis using 1 2 3 by blast
qed

subsection \<open>Word weights\<close>

lemma processor_captionWords_length:
  "length (processor_captionWords ws duration t) = length ws"
  by (simp add: processor_captionWords_def)

lemma processor_captionWords_nth:
  assumes "i < length ws"
  shows "processor_captionWords ws duration t ! i =
           \<lparr>word_text = ws ! i,
            word_startTime = t + real i * (duration / real (length ws)),
            word_endTime = t + real (i + 1) * (duration / real (length ws))\<rparr>"
  using assms by (simp add: processor_captionWords_def Let_def)

lemma processor_captionWords_uniform:
  assumes "i < length ws"
  shows "word_endTime (processor_captionWords ws duration t ! i) -
         word_startTime (processor_captionWords ws duration t ! i) =
         duration / real (length ws)"
proof -
  have "t + real (i + 1) * d - (t + real i * d) = d" for d :: real
    by (simp add: distrib_right)
  then show ?thesis
    unfolding processor_captionWords_nth[OF assms] captionWord.select_convs .
qed

text \<open>
  Claim C7 (word weights), as amended. For a script with at least one word,
  \<open>estimateWordTimings\<close> of captions.ts gives the word at index \<open>i\<close> the time
  \<open>(length + bonus) * (duration / total)\<close>, where the bonus is 3 after \<open>.\<close>, \<open>!\<close> or \<open>?\<close>,
  1.5 after \<open>,\<close>, \<open>;\<close> or \<open>:\<close> and 0 otherwise, and \<open>total\<close> is the sum of the weights of
  all words; the times of the words add up to the duration. The processor's
  \<open>generateCaptions\<close> gives every word of the segment the same time, the duration divided
  by the number of words.
\<close>

theorem caption_word_weights:
  assumes "wordsOf script_text \<noteq> []"
  shows "map word_text (estimateWordTimings script_text startTime duration) =
           wordsOf script_text \<and>
         (\<forall>i < length (wordsOf script_text).
            word_endTime (estimateWordTimings script_text startTime duration ! i) -
            word_startTime (estimateWordTimings script_text startTime duration ! i) =
            (real (length (wordsOf script_text ! i)) + pauseBonus (wordsOf script_text ! i)) *
            (duration /
             sum_list (map (\<lambda>w. real (length w) + pauseBonus w) (wordsOf script_text)))) \<and>
         sum_list (map (\<lambda>w. word_endTime w - word_startTime w)
           (estimateWordTimings script_text startTime duration)) = duration \<and>
         map word_text (processor_captionWords (wordsOf script_text) duration startTime) =
           wordsOf script_text \<and>
         (\<forall>i < length (wordsOf script_text).
            word_endTime (processor_captionWords (wordsOf script_text) duration startTime ! i) -
            word_startTime (processor_captionWords (wordsOf script_text) duration startTime ! i) =
            duration / real (length (wordsOf script_text)))"
proof -
  let ?ws = "wordsOf script_text"
  have t: "map word_text (processor_captionWords ?ws duration startTime) = ?ws"
    by (rule nth_equalityI)
       (simp_all add: processor_captionWords_length processor_captionWords_nth)
  show ?thesis
    using estimateWordTimings_weights[OF assms, of startTime duration] t
      processor_captionWords_uniform[of _ ?ws duration startTime]
    by simp
qed

theorem caption_word_weights_witness:
  "wordsOf ''Hi there.'' = [''Hi'', ''there.''] \<and>
   map word_text (estimateWordTimings ''Hi there.'' 0 7) = [''Hi'', ''there.''] \<and>
   word_endTime (estimateWordTimings ''Hi there.'' 0 7 ! 1) -
   word_startTime (estimateWordTimings ''Hi there.'' 0 7 ! 1) = (6 + 3) * (7 / 11) \<and>
   sum_list (map (\<lambda>w. word_endTime w - word_startTime w)
     (estimateWordTimings ''Hi there.'' 0 7)) = 7 \<and>
   word_endTime (processor_captionWords (wordsOf ''Hi there.'') 7 0 ! 1) -
   word_startTime (processor_captionWords (wordsOf ''Hi there.'') 7 0 ! 1) = 7 / 2"
proof -
  have h: "wordsOf ''Hi there.'' \<noteq> []" by (simp add: words_example1)
  have p: "pauseBonus ''there.'' = 3" "pauseBonus ''Hi'' = 0"
    by (simp_all add: pauseBonus_def)
  show ?thesis
    using caption_word_weights[OF h, of 0 7] by (simp add: words_example1 p)
qed

text \<open>
  In the processor the weights play no part: of 7 seconds, \<open>Hi\<close> (weight 2) and
  \<open>there.\<close> (weight 9) get 3.5 seconds each.
\<close>

theorem caption_word_weights_counterexample:
  "map cap_words (processor_generateCaptions [hiThere] [7]) =
     [[\<lparr>word_text = ''Hi'', word_startTime = 0, word_endTime = 7 / 2\<rparr>,
       \<lparr>word_text = ''there.'', word_startTime = 7 / 2, word_endTime = 7\<rparr>]] \<and>
   wordWeight ''Hi'' = 2 \<and> wordWeight ''there.'' = 9 \<and>
   (7 / 2 :: real) \<noteq> 2 * (7 / (2 + 9))"
proof -
  have u: "[0..<2] = [0, Suc 0]" by (simp add: upt_rec)
  show ?thesis
    by (simp add: processor_generateCaptions_def hiThere_def words_example1
        processor_captionWords_def wordWeight_def endsWith_def u Let_def)
qed
subsection \<open>Runs and their writes\<close>






lemma emits_weaken:
  assumes "emits tr m xs zs Q" and "\<And>v. Q v \<Longrightarrow> R v"
  shows "emits tr m xs zs R"
  using assms by (auto simp: emits_def split: prod.splits sum.splits) blast+


subsection \<open>The processor's writes\<close>













subsection \<open>Order of the processor's writes\<close>
























subsection \<open>The component's writes\<close>

















subsection \<open>Order of the component's writes\<close>















subsection \<open>Duration matching\<close>

lemma clampedSpeed_cases:
  "clampedSpeed c t = (if c / t < 1 / 2 then 1 / 2 else if 2 < c / t then 2 else c / t)"
proof -
  have "max (1 / 2) (min 2 r) = (if r < 1 / 2 then 1 / 2 else if 2 < r then 2 else r)"
    for r :: real
    by (auto simp: max_def min_def)
  then show ?thesis
    unfolding clampedSpeed_def speedFactor_def .
qed

lemma clampedSpeed_range: "1 / 2 \<le> clampedSpeed c t \<and> clampedSpeed c t \<le> 2"
  by (simp add: clampedSpeed_def)

text \<open>
  Claim C4 (speed clamp), as amended. For a positive target duration, \<open>adjustDuration\<close> of
  timestretch.ts computes the speed as current / target clamped to the interval from 0.5
  to 2, and the filter it runs multiplies the presentation times by the reciprocal of
  that speed, written with four decimals. The processor's \<open>adjustDuration\<close> computes no
  speed: its filter carries the constant factor 1.0 and the command cuts the output at
  the target duration. In both the factor applied lies between 0.5 and 2.
\<close>

theorem speed_clamp:
  assumes "0 < targetDuration"
  shows "speedFactor currentDuration targetDuration = currentDuration / targetDuration \<and>
         clampedSpeed currentDuration targetDuration =
           (if currentDuration / targetDuration < 1 / 2 then 1 / 2
            else if 2 < currentDuration / targetDuration then 2
            else currentDuration / targetDuration) \<and>
         1 / 2 \<le> clampedSpeed currentDuration targetDuration \<and>
         clampedSpeed currentDuration targetDuration \<le> 2 \<and>
         adjustDuration_args targetDuration currentDuration ! 3 =
           T [S ''setpts='', N (toFixed4 (1 / clampedSpeed currentDuration targetDuration)),
              S ''*PTS''] \<and>
         processor_adjustDuration_args targetDuration outputName ! 3 =
           T [S ''[0:v]setpts=PTS*'', N 1, S ''[v];[0:a]atempo='', N 1, S ''[a]''] \<and>
         processor_adjustDuration_args targetDuration outputName ! 9 = N targetDuration \<and>
         1 / 2 \<le> processor_speed \<and> processor_speed \<le> 2"
proof -
  have a: "adjustDuration_args targetDuration currentDuration ! 3 =
             T [S ''setpts='', N (toFixed4 (1 / clampedSpeed currentDuration targetDuration)),
                S ''*PTS'']"
    by (simp add: adjustDuration_args_def ptsMultiplier_def)
  have b: "processor_adjustDuration_args targetDuration outputName ! 3 =
             T [S ''[0:v]setpts=PTS*'', N 1, S ''[v];[0:a]atempo='', N 1, S ''[a]'']"
    by (simp add: processor_adjustDuration_args_def processor_speed_def)
  have c: "processor_adjustDuration_args targetDuration outputName ! 9 = N targetDuration"
    by (simp add: processor_adjustDuration_args_def numeral_nat)
  have d: "1 / 2 \<le> processor_speed \<and> processor_speed \<le> 2"
    by (simp add: processor_speed_def)
  show ?thesis
    using a b c d clampedSpeed_cases[of currentDuration targetDuration]
      clampedSpeed_range[of currentDuration targetDuration]
    by (simp add: speedFactor_def)
qed

theorem speed_clamp_witness:
  "clampedSpeed 10 4 = 2 \<and> clampedSpeed 1 4 = 1 / 2 \<and> clampedSpeed 6 4 = 3 / 2 \<and>
   adjustDuration_args 4 10 ! 3 = T [S ''setpts='', N (1 / 2), S ''*PTS''] \<and>
   processor_adjustDuration_args 4 (S ''adjusted_0.mp4'') ! 9 = N 4"
proof -
  have h: "(0::real) < 4" by simp
  have f: "toFixed4 (1 / 2) = 1 / 2" by (simp add: toFixed4_def js_round_def)
  show ?thesis
    using speed_clamp[OF h, of 10 "S ''adjusted_0.mp4''"] speed_clamp[OF h, of 1 "S ''x''"]
      speed_clamp[OF h, of 6 "S ''x''"]
    by (simp add: f)
qed

text \<open>
  A clip of 10 seconds for a target of 4 seconds: the clamped speed is 2, the processor's
  filter carries 1.
\<close>

theorem speed_clamp_counterexample:
  "clampedSpeed 10 4 = 2 \<and> processor_speed = 1 \<and>
   processor_adjustDuration_args 4 (S ''adjusted_0.mp4'') ! 3 \<noteq>
     T [S ''[0:v]setpts=PTS*'', N (clampedSpeed 10 4), S ''[v];[0:a]atempo='',
        N (clampedSpeed 10 4), S ''[a]'']"
  by (simp add: clampedSpeed_def speedFactor_def processor_speed_def
      processor_adjustDuration_args_def)

subsection \<open>The runs of the example jobs\<close>

lemmas run_defs = processVideo_def processVideo_try_def exampleEnv_def exampleJob_def
  exampleWorld_def updateJobProgress_def updateJob_def completeJob_def failJob_def bindM_def
  retM_def throwM_def liftResult_def downloadFile_def onFiles_def loadMusic_def
  segmentProgress_def ofTotal_def generateTTS_def processor_extractClip_def
  processor_extractClip_args_def processor_applyCrop_def processor_applyCrop_args_def
  processor_adjustDuration_def processor_adjustDuration_args_def processor_stitchSegments_def
  ffmpeg_writeFile_def ffmpeg_exec_def ffmpeg_readFile_def ffmpeg_deleteFile_def
  errorMessage_def Let_def





text \<open>
  The progress of \<open>cropping\<close> is the segment's share times 0.7 and then times 0.9. With
  five segments the fourth leaves it at 72 and the fifth enters it at 70.
\<close>

lemma cropping_progress_of_five:
  "processorWrites 5 False ! 22 = (Cropping, 72) \<and>
   processorWrites 5 False ! 24 = (Cropping, 70)"
proof -
  have "processorWrites 5 False =
     [(Loading, 0), (Loading, 100), (Extracting, 0), (Extracting, 20), (Tts, 0), (Tts, 20),
      (Tts, 40), (Tts, 60), (Tts, 80), (Tts, 100), (Detecting, 0),
      (Detecting, 10), (Cropping, 14), (Cropping, 18),
      (Detecting, 20), (Cropping, 28), (Cropping, 36),
      (Detecting, 30), (Cropping, 42), (Cropping, 54),
      (Detecting, 40), (Cropping, 56), (Cropping, 72),
      (Detecting, 50), (Cropping, 70), (Cropping, 90),
      (Stitching, 20), (Stitching, 80)]"
    by (simp add: processorWrites_def eval_nat_numeral)
  then show ?thesis by (simp add: numeral_nat)
qed




subsection \<open>Clip extraction\<close>








subsection \<open>Scratch files\<close>

lemmas client_defs = tryFinally_def bindM_def retM_def writeFile_def readFile_def deleteFile_def
  ffmpeg_writeFile_def ffmpeg_exec_def ffmpeg_readFile_def ffmpeg_deleteFile_def

lemma extractClip_releases:
  "snd (extractClip ff videoFile startTime duration fls) (S ''input.mp4'') = None \<and>
   snd (extractClip ff videoFile startTime duration fls) (S ''clip.mp4'') = None"
  by (auto simp: extractClip_def client_defs split: prod.splits option.splits sum.splits)

lemma cropVideo_releases:
  "snd (cropVideo ff videoBlob cropRegion fls) (S ''input.mp4'') = None \<and>
   snd (cropVideo ff videoBlob cropRegion fls) (S ''cropped.mp4'') = None"
  by (auto simp: cropVideo_def client_defs split: prod.splits option.splits sum.splits)

lemma adjustDuration_releases:
  "snd (adjustDuration ff videoBlob targetDuration currentDuration fls) (S ''input.mp4'') = None \<and>
   snd (adjustDuration ff videoBlob targetDuration currentDuration fls) (S ''adjusted.mp4'') = None"
  by (auto simp: adjustDuration_def client_defs split: prod.splits option.splits sum.splits)

lemma deleteFile_result:
  "deleteFile ff name fls = (Inr (), fls(name := None))"
  by (auto simp: deleteFile_def ffmpeg_deleteFile_def split: option.splits)

lemma deleteFiles_result:
  "deleteFiles ff names fls = (Inr (), (\<lambda>n. if n \<in> set names then None else fls n))"
proof (induction names arbitrary: fls)
  case Nil
  show ?case by (simp add: retM_def)
next
  case (Cons a names)
  show ?case by (auto simp: bindM_def deleteFile_result Cons.IH)
qed

lemma tryFinally_leaves:
  assumes "\<And>s1. fst (fin s1) = Inr () \<and> P (snd (fin s1))"
  shows "P (snd (tryFinally body fin s))"
proof -
  obtain r s1 where b: "body s = (r, s1)" by (cases "body s")
  obtain r2 s2 where f: "fin s1 = (r2, s2)" by (cases "fin s1")
  have "r2 = Inr () \<and> P s2" using assms[of s1] f by simp
  then show ?thesis using b f by (simp add: tryFinally_def)
qed

lemma stitchSegments_releases:
  assumes "name \<in> set (map segmentFileName [0..<length segments]) \<union>
             set (map audioFileName [0..<length segments]) \<union>
             {S ''concat.txt'', S ''video_only.mp4'', S ''audio_mixed.wav'', S ''music.mp3'',
              S ''final.mp4''}"
  shows "snd (stitchSegments ff segments backgroundMusic musicVolume fls) name = None"
proof -
  let ?fin = "bindM (deleteFiles ff (map segmentFileName [0..<length segments])) (\<lambda>u.
           bindM (deleteFiles ff (map audioFileName [0..<length segments])) (\<lambda>u.
           bindM (deleteFile ff (S ''concat.txt'')) (\<lambda>u.
           bindM (deleteFile ff (S ''video_only.mp4'')) (\<lambda>u.
           bindM (deleteFile ff (S ''audio_mixed.wav'')) (\<lambda>u.
           bindM (deleteFile ff (S ''music.mp3'')) (\<lambda>u.
           deleteFile ff (S ''final.mp4'')))))))"
  have fin: "fst (?fin f) = Inr () \<and> snd (?fin f) name = None" for f
    using assms by (auto simp: bindM_def deleteFile_result deleteFiles_result)
  show ?thesis
    unfolding stitchSegments_def Let_def
    by (rule tryFinally_leaves[where P = "\<lambda>f. f name = None"]) (rule fin)
qed

lemma processor_extractClip_success_releases:
  assumes "fst (processor_extractClip ff videoData startTime duration outputName fls) = Inr c"
  shows "snd (processor_extractClip ff videoData startTime duration outputName fls)
           (S ''input.mp4'') = None \<and>
         snd (processor_extractClip ff videoData startTime duration outputName fls)
           outputName = None"
  using assms
  by (auto simp: processor_extractClip_def bindM_def retM_def ffmpeg_writeFile_def
      ffmpeg_exec_def ffmpeg_readFile_def ffmpeg_deleteFile_def
      split: prod.splits option.splits if_splits)

text \<open>
  Claim C10 (scratch files). The media steps of lib/ffmpeg delete their files in a
  \<open>finally\<close> block (the lemmas above). The processor's steps delete theirs after the read
  only: when the command has left no output, \<open>readFile\<close> throws and \<open>input.mp4\<close> stays in
  the file system, also after the job has failed.
\<close>

theorem scratch_files_left_on_failure:
  "fst (processor_extractClip idleEngine (Bytes [1, 2, 3]) 5 10
         (T [S ''clip_'', N 0, S ''.mp4'']) Map.empty) = Inl Thrown \<and>
   snd (processor_extractClip idleEngine (Bytes [1, 2, 3]) 5 10
         (T [S ''clip_'', N 0, S ''.mp4'']) Map.empty) (S ''input.mp4'') = Some (Bytes [1, 2, 3]) \<and>
   files (snd (processVideo (exampleEnv idleEngine) exampleJob exampleWorld)) (S ''input.mp4'') =
     Some (Bytes [1, 2, 3]) \<and>
   fst (extractClip idleEngine (Bytes [1, 2, 3]) 5 10 Map.empty) = Inl Thrown \<and>
   snd (extractClip idleEngine (Bytes [1, 2, 3]) 5 10 Map.empty) (S ''input.mp4'') = None \<and>
   snd (extractClip idleEngine (Bytes [1, 2, 3]) 5 10 Map.empty) (S ''clip.mp4'') = None"
proof -
  have 1: "processor_extractClip idleEngine (Bytes [1, 2, 3]) 5 10
         (T [S ''clip_'', N 0, S ''.mp4'']) Map.empty =
         (Inl Thrown, [S ''input.mp4'' \<mapsto> Bytes [1, 2, 3]])"
    by (simp add: processor_extractClip_def bindM_def retM_def ffmpeg_writeFile_def
        ffmpeg_exec_def ffmpeg_readFile_def idleEngine_def)
  have 2: "files (snd (processVideo (exampleEnv idleEngine) exampleJob exampleWorld))
             (S ''input.mp4'') = Some (Bytes [1, 2, 3])"
    by (simp add: run_defs idleEngine_def)
  have 3: "fst (extractClip idleEngine (Bytes [1, 2, 3]) 5 10 Map.empty) = Inl Thrown"
    by (simp add: extractClip_def client_defs idleEngine_def)
  show ?thesis using 1 2 3 extractClip_releases[of idleEngine "Bytes [1, 2, 3]" 5 10 Map.empty]
    by simp
qed

subsection \<open>The crop the component applies\<close>

lemma bindM_retM: "bindM (retM v) f = f v"
  by (rule ext) (simp add: bindM_def retM_def)

lemma bindM_liftResult_Inr: "bindM (liftResult (Inr v)) f = f v"
  by (rule ext) (simp add: bindM_def liftResult_def retM_def)

text \<open>
  Claim C3 (default crop target). For a clip of 720 by 1600 with no face in any sampled
  frame \<open>calculateOptimalCrop\<close> aims at the upper third and returns the region at
  \<open>y = 107\<close>; the component computes it and does not use it: the crop it applies is the
  one of \<open>smartCrop\<close>, centred, at \<open>y = 160\<close>.
\<close>

theorem default_crop_applied:
  "targetCenter [None, None] 720 1600 = \<lparr>px = 360, py = 1600 / 3\<rparr> \<and>
   calculateOptimalCrop [None, None] 720 1600 =
     \<lparr>crop_x = 0, crop_y = 107, crop_width = 720, crop_height = 1280\<rparr> \<and>
   smartCrop ff clip [None, None] 720 1600 =
     cropVideo ff clip \<lparr>crop_x = 0, crop_y = 160, crop_width = 720, crop_height = 1280\<rparr> \<and>
   processClip (exampleBrowserEnv ff) ff clip audioDuration =
     bindM (onBrowserFiles (cropVideo ff clip
              \<lparr>crop_x = 0, crop_y = 160, crop_width = 720, crop_height = 1280\<rparr>))
       (\<lambda>croppedClip. onBrowserFiles (adjustDuration ff croppedClip audioDuration 10))"
proof -
  have t: "targetCenter [None, None] 720 1600 = \<lparr>px = 360, py = 1600 / 3\<rparr>"
    by (simp add: targetCenter_def validCenters_def)
  have o: "calculateOptimalCrop [None, None] 720 1600 =
     \<lparr>crop_x = 0, crop_y = 107, crop_width = 720, crop_height = 1280\<rparr>"
    by (simp add: calculateOptimalCrop_def t TARGET_ASPECT_def OUTPUT_WIDTH_def
        OUTPUT_HEIGHT_def js_round_def Let_def)
  have r: "calculateCropRegion 720 1600 (averageCenter [None, None]) =
     \<lparr>crop_x = 0, crop_y = 160, crop_width = 720, crop_height = 1280\<rparr>"
    by (simp add: calculateCropRegion_def averageCenter_def validCenters_def js_round_def Let_def)
  have s: "smartCrop ff clip [None, None] 720 1600 =
     cropVideo ff clip \<lparr>crop_x = 0, crop_y = 160, crop_width = 720, crop_height = 1280\<rparr>"
    by (simp add: smartCrop_def r)
  have p: "processClip (exampleBrowserEnv ff) ff clip audioDuration =
     bindM (onBrowserFiles (cropVideo ff clip
              \<lparr>crop_x = 0, crop_y = 160, crop_width = 720, crop_height = 1280\<rparr>))
       (\<lambda>croppedClip. onBrowserFiles (adjustDuration ff croppedClip audioDuration 10))"
    by (simp add: processClip_def exampleBrowserEnv_def bindM_liftResult_Inr s Let_def)
  show ?thesis using t o s p by simp
qed

subsection \<open>Recency weights\<close>

lemma weight_half_bounds:
  "1095 / 1000 < (12 / 10 :: real) powr (1 / 2) \<and> (12 / 10 :: real) powr (1 / 2) < 11 / 10"
proof -
  have e: "(12 / 10 :: real) powr (1 / 2) = sqrt (12 / 10)"
    by (simp add: powr_half_sqrt)
  have "(1095 / 1000 :: real)\<^sup>2 < 12 / 10" by (simp add: power2_eq_square)
  then have 1: "1095 / 1000 < sqrt (12 / 10 :: real)" by (rule real_less_rsqrt)
  have "(12 / 10 :: real) < (11 / 10)\<^sup>2" by (simp add: power2_eq_square)
  then have 2: "sqrt (12 / 10 :: real) < 11 / 10" by (intro real_less_lsqrt) simp_all
  show ?thesis using 1 2 e by simp
qed

lemma recencyWeights_two: "recencyWeights 2 = [1, (12 / 10) powr (1 / 2)]"
proof -
  have "[0..<2] = [0, Suc 0]" by (simp add: upt_rec)
  then show ?thesis by (simp add: recencyWeights_def)
qed

lemma twoFaces_target:
  "px (targetCenter twoFaces 1920 1080) =
     (400 + 1000 * (12 / 10) powr (1 / 2)) / (1 + (12 / 10) powr (1 / 2)) \<and>
   py (targetCenter twoFaces 1920 1080) = 300"
proof -
  let ?w = "(12 / 10 :: real) powr (1 / 2)"
  have w: "0 < 1 + ?w" using weight_half_bounds by linarith
  have "(300 + 300 * ?w) / (1 + ?w) = 300"
    using w by (simp add: field_simps)
  moreover have "recencyWeights (Suc (Suc 0)) = [1, ?w]"
    using recencyWeights_two by (simp add: numeral_2_eq_2)
  ultimately show ?thesis
    by (simp add: targetCenter_def twoFaces_def validCenters_def weightedSum_def Let_def)
qed

lemma twoFaces_optimal:
  "calculateOptimalCrop twoFaces 1920 1080 =
     \<lparr>crop_x = 410, crop_y = 0, crop_width = 608, crop_height = 1080\<rparr>"
proof -
  let ?w = "(12 / 10 :: real) powr (1 / 2)"
  let ?t = "(400 + 1000 * ?w) / (1 + ?w)"
  have w: "0 < 1 + ?w" "1095 / 1000 < ?w" "?w < 11 / 10"
    using weight_half_bounds by linarith+
  have lo: "7135 / 10 \<le> ?t"
    using w by (simp add: pos_le_divide_eq) 
  have hi: "?t < 7145 / 10"
    using w by (simp add: pos_divide_less_eq)
  define t where "t = ?t"
  have "real_of_int 410 \<le> t - 608 / 2 + 1 / 2" "t - 608 / 2 + 1 / 2 < real_of_int 410 + 1"
    using lo hi unfolding t_def by linarith+
  then have "\<lfloor>t - 608 / 2 + 1 / 2\<rfloor> = 410" by (rule floor_unique)
  then have x: "js_round (?t - 608 / 2) = 410"
    unfolding js_round_def t_def .
  have y: "js_round (300 - 1080 / 3 :: real) = -60"
    by (simp add: js_round_def)
  have cw: "js_round (1080 * (9 / 16) :: real) = 608" by (simp add: js_round_def)
  show ?thesis
    using twoFaces_target x y cw
    by (simp add: calculateOptimalCrop_def TARGET_ASPECT_def OUTPUT_WIDTH_def OUTPUT_HEIGHT_def
        Let_def)
qed

lemma twoFaces_average: "averageCenter twoFaces = Some \<lparr>px = 700, py = 300\<rparr>"
  by (simp add: averageCenter_def twoFaces_def validCenters_def)

lemma twoFaces_region:
  "calculateCropRegion 1920 1080 (averageCenter twoFaces) =
     \<lparr>crop_x = 396, crop_y = 0, crop_width = 608, crop_height = 1080\<rparr>"
  by (simp add: twoFaces_average calculateCropRegion_def js_round_def Let_def)

text \<open>
  Claim C9 (recency weights). For two faces at \<open>x = 400\<close> and \<open>x = 1000\<close> in a frame of
  1920 by 1080 the weights of \<open>calculateOptimalCrop\<close> are 1 and \<open>1.2 ^ (1 / 2)\<close>, its target
  lies right of the middle of the two and its region starts at \<open>x = 410\<close>; \<open>smartCrop\<close>,
  which the component applies, takes the plain average 700 and crops at \<open>x = 396\<close>.
\<close>

theorem recency_weights_not_applied:
  "recencyWeights 2 = [1, (12 / 10) powr (1 / 2)] \<and>
   px (targetCenter twoFaces 1920 1080) =
     (400 + 1000 * (12 / 10) powr (1 / 2)) / (1 + (12 / 10) powr (1 / 2)) \<and>
   calculateOptimalCrop twoFaces 1920 1080 =
     \<lparr>crop_x = 410, crop_y = 0, crop_width = 608, crop_height = 1080\<rparr> \<and>
   averageCenter twoFaces = Some \<lparr>px = 700, py = 300\<rparr> \<and>
   smartCrop ff clip twoFaces 1920 1080 =
     cropVideo ff clip \<lparr>crop_x = 396, crop_y = 0, crop_width = 608, crop_height = 1080\<rparr>"
  using recencyWeights_two twoFaces_target twoFaces_optimal twoFaces_average twoFaces_region
  by (simp add: smartCrop_def)

end
